theory Spec2Isabelle
  imports Complex_Main "HOL-Library.Word" "HOL-Library.Signed_Division"
begin

section \<open>Data model of main.go\<close>

text \<open>
  Go's \<^verbatim>\<open>int64\<close> is a 64-bit word: \<open>*\<close> wraps around, and the comparisons of the
  source (\<^verbatim>\<open>a > b\<close>, \<^verbatim>\<open>a <= b\<close> on int64) are the signed ones, \<open>b <s a\<close> and
  \<open>a \<le>s b\<close>. A decoded \<^verbatim>\<open>float64\<close> is a finite number (JSON has no NaN and no
  infinity), so it is carried as a real; pushMetrics only moves such values, it never
  computes with them.
\<close>

type_synonym int64 = "64 word"
type_synonym float64 = real

record TimeValue =
  Value :: float64
  Timestamp :: int64

record TimeSeriesMetric =
  DayStartTimestamp :: int64
  Title :: string
  Values :: "TimeValue list"
  LastReading :: float64
  Unit :: string
  Subtitle :: string
  Avg :: float64
  Total :: float64

text \<open>A Go pointer \<^verbatim>\<open>*float64\<close> is an option: \<open>None\<close> is \<^verbatim>\<open>nil\<close>.\<close>

record SimpleMetric =
  Value :: "float64 option"
  Title :: string
  DayStartTimestamp :: int64

record SleepMetric =
  DayStartTimestamp :: int64
  Score :: "float64 option"
  TotalSleep :: "float64 option"
  Efficiency :: "float64 option"
  TimeInBed :: "float64 option"
  DeepSleep :: "float64 option"
  LightSleep :: "float64 option"
  RemSleep :: "float64 option"

text \<open>
  \<^verbatim>\<open>json.RawMessage\<close> and \<^verbatim>\<open>json.Unmarshal\<close> belong to Go's standard library, not to
  this program. The program calls \<^verbatim>\<open>json.Unmarshal(m.Object, &v)\<close> with three target
  types and looks at \<^verbatim>\<open>v\<close> only when \<^verbatim>\<open>err == nil\<close>. A raw payload is therefore
  represented by what Unmarshal yields for each of the three targets: \<open>None\<close> when it
  returns an error, \<open>Some v\<close> when it returns \<^verbatim>\<open>nil\<close> and has filled \<^verbatim>\<open>v\<close>.
\<close>

record json_RawMessage =
  Unmarshal_TimeSeriesMetric :: "TimeSeriesMetric option"
  Unmarshal_SimpleMetric :: "SimpleMetric option"
  Unmarshal_SleepMetric :: "SleepMetric option"

record Metric =
  Type :: string
  Object :: json_RawMessage

text \<open>
  \<^verbatim>\<open>Data.Metrics\<close> is a Go map from date to metrics. The program only ranges over it,
  and Go leaves the order of that iteration unspecified; the map is given as its
  entries in the order in which the iteration of this run yields them.
\<close>

record Data =
  Metrics :: "(string \<times> Metric list) list"
  LatestTimeZone :: string

record APIResponse =
  Data :: Data
  Error :: "string option"
  Status :: int

subsection \<open>The Prometheus remote-write messages (prompb)\<close>

record prompb_Label =
  Name :: string
  Value :: string

record prompb_Sample =
  Value :: float64
  Timestamp :: int64

record prompb_TimeSeries =
  Labels :: "prompb_Label list"
  Samples :: "prompb_Sample list"

definition buildTimeSeries :: "string \<Rightarrow> float64 \<Rightarrow> int64 \<Rightarrow> prompb_TimeSeries" where
  "buildTimeSeries metricName value timestampMs =
     \<lparr>Labels = [\<lparr>prompb_Label.Name = ''__name__'', prompb_Label.Value = metricName\<rparr>],
      Samples = [\<lparr>prompb_Sample.Value = value, prompb_Sample.Timestamp = timestampMs\<rparr>]\<rparr>"

subsection \<open>Errors and the remote-write client\<close>

datatype error =
    MarshalingWriteRequest string
  | CreatingRequest string
  | SendingRequest string
  | RemoteWriteFailed int string
  | PushMetricsError error
  | APIError string
  | RequestError string

text \<open>
  What happens to one call of \<^verbatim>\<open>Write\<close> outside the program: marshalling fails,
  \<^verbatim>\<open>http.NewRequest\<close> fails, \<^verbatim>\<open>client.Do\<close> fails, or the endpoint answers with a status
  code and a body. The client is modelled together with the endpoint it posts to.
\<close>

datatype write_outcome =
    MarshalFails string
  | NewRequestFails string
  | DoFails string
  | Response int string

record RemoteWriteClient =
  url :: string
  endpoint :: "prompb_TimeSeries list \<Rightarrow> write_outcome"

definition Write :: "RemoteWriteClient \<Rightarrow> prompb_TimeSeries list \<Rightarrow> error option" where
  "Write c timeseries =
     (case endpoint c timeseries of
        MarshalFails e \<Rightarrow> Some (MarshalingWriteRequest e)
      | NewRequestFails e \<Rightarrow> Some (CreatingRequest e)
      | DoFails e \<Rightarrow> Some (SendingRequest e)
      | Response StatusCode body \<Rightarrow>
          if StatusCode sdiv 100 \<noteq> 2 then Some (RemoteWriteFailed StatusCode body)
          else None)"

subsection \<open>The metric registry\<close>

record MetricConfig =
  MetricType :: string
  Field :: string
  DisplayName :: string
  Unit :: string
  IsDuration :: bool
  PrometheusName :: string

text \<open>The unit of temperatures, the two bytes of the degree sign in UTF-8 and a C.\<close>

definition degC :: string where
  "degC = [CHR 0xC2, CHR 0xB0, CHR ''C'']"

definition timeseries_cfg :: "string \<Rightarrow> string \<Rightarrow> string \<Rightarrow> string \<Rightarrow> MetricConfig" where
  "timeseries_cfg f d u p =
     \<lparr>MetricType = ''timeseries'', Field = f, DisplayName = d, MetricConfig.Unit = u,
      IsDuration = False, PrometheusName = p\<rparr>"

definition simple_cfg :: "string \<Rightarrow> string \<Rightarrow> bool \<Rightarrow> string \<Rightarrow> MetricConfig" where
  "simple_cfg d u dur p =
     \<lparr>MetricType = ''simple'', Field = [], DisplayName = d, MetricConfig.Unit = u,
      IsDuration = dur, PrometheusName = p\<rparr>"

definition metricRegistry_entries :: "(string \<times> MetricConfig) list" where
  "metricRegistry_entries =
    [(''hr'', timeseries_cfg ''last'' ''HEART RATE'' ''BPM'' ''ultrahuman_heart_rate_bpm''),
     (''hrv'', timeseries_cfg ''last'' ''HEART RATE VARIABILITY'' ''ms'' ''ultrahuman_hrv_ms''),
     (''temp'', timeseries_cfg ''last'' ''SKIN TEMPERATURE'' degC
        ''ultrahuman_skin_temperature_celsius''),
     (''spo2'', timeseries_cfg ''avg'' ''SPO2 (Blood Oxygen)'' ''%'' ''ultrahuman_spo2_percent''),
     (''steps'', timeseries_cfg ''total'' ''STEPS'' [] ''ultrahuman_steps_total''),
     (''movement_index'', simple_cfg ''MOVEMENT INDEX'' [] False ''ultrahuman_movement_index''),
     (''active_minutes'', simple_cfg ''ACTIVE MINUTES'' ''min'' False ''ultrahuman_active_minutes''),
     (''recovery_index'', simple_cfg ''RECOVERY INDEX'' [] False ''ultrahuman_recovery_index''),
     (''recovery'', simple_cfg ''RECOVERY'' [] False ''ultrahuman_recovery''),
     (''vo2_max'', simple_cfg ''VO2 MAX'' ''ml/kg/min'' False ''ultrahuman_vo2_max''),
     (''temperature_deviation'', simple_cfg ''TEMPERATURE DEVIATION'' degC False
        ''ultrahuman_temperature_deviation_celsius''),
     (''average_body_temperature'', simple_cfg ''AVG BODY TEMP'' degC False
        ''ultrahuman_avg_body_temperature_celsius''),
     (''sleep_score'', simple_cfg ''SLEEP SCORE'' [] False ''ultrahuman_sleep_score''),
     (''total_sleep'', simple_cfg ''TOTAL SLEEP'' [] True ''ultrahuman_total_sleep_minutes''),
     (''sleep_efficiency'', simple_cfg ''SLEEP EFFICIENCY'' ''%'' False
        ''ultrahuman_sleep_efficiency_percent''),
     (''deep_sleep'', simple_cfg ''DEEP SLEEP'' [] True ''ultrahuman_deep_sleep_minutes''),
     (''light_sleep'', simple_cfg ''LIGHT SLEEP'' [] True ''ultrahuman_light_sleep_minutes''),
     (''rem_sleep'', simple_cfg ''REM SLEEP'' [] True ''ultrahuman_rem_sleep_minutes''),
     (''time_in_bed'', simple_cfg ''TIME IN BED'' [] True ''ultrahuman_time_in_bed_minutes''),
     (''sleep_rhr'', simple_cfg ''SLEEP RESTING HR'' ''BPM'' False ''ultrahuman_sleep_rhr_bpm''),
     (''night_rhr'', simple_cfg ''SLEEP RESTING HR'' ''BPM'' False ''ultrahuman_sleep_rhr_bpm''),
     (''avg_sleep_hrv'', simple_cfg ''SLEEP HRV'' ''ms'' False ''ultrahuman_avg_sleep_hrv_ms''),
     (''hr_drop'', simple_cfg ''HR DROP (Sleep)'' ''BPM'' False ''ultrahuman_hr_drop_bpm''),
     (''restorative_sleep'', simple_cfg ''RESTORATIVE SLEEP'' [] False
        ''ultrahuman_restorative_sleep''),
     (''morning_alertness'', simple_cfg ''MORNING ALERTNESS'' [] False
        ''ultrahuman_morning_alertness''),
     (''full_sleep_cycles'', simple_cfg ''SLEEP CYCLES'' [] False ''ultrahuman_full_sleep_cycles''),
     (''tosses_and_turns'', simple_cfg ''TOSSES & TURNS'' [] False ''ultrahuman_tosses_and_turns''),
     (''movements'', simple_cfg ''MOVEMENTS (Sleep)'' [] False ''ultrahuman_sleep_movements''),
     (''glucose'', timeseries_cfg ''last'' ''GLUCOSE'' ''mg/dL'' ''ultrahuman_glucose_mg_dl''),
     (''average_glucose'', simple_cfg ''AVERAGE GLUCOSE'' ''mg/dL'' False
        ''ultrahuman_avg_glucose_mg_dl''),
     (''glucose_variability'', simple_cfg ''GLUCOSE VARIABILITY'' ''%'' False
        ''ultrahuman_glucose_variability_percent''),
     (''time_in_target'', simple_cfg ''TIME IN TARGET'' ''%'' False
        ''ultrahuman_time_in_target_percent''),
     (''hba1c'', simple_cfg ''HbA1c (Estimated)'' ''%'' False ''ultrahuman_hba1c_percent''),
     (''metabolic_score'', simple_cfg ''METABOLIC SCORE'' [] False ''ultrahuman_metabolic_score'')]"

definition metricRegistry :: "string \<rightharpoonup> MetricConfig" where
  "metricRegistry = map_of metricRegistry_entries"

section \<open>The forwarding state and pushMetrics\<close>

text \<open>
  The two package-level variables. \<^verbatim>\<open>lastPushedTimestamp\<close> is a Go map; reading a key
  that is absent yields the zero value, which \<open>lookup0\<close> writes out.
\<close>

record state =
  lastPushedTimestamp :: "string \<rightharpoonup> int64"
  globalLatestTimestamp :: int64

definition lookup0 :: "(string \<rightharpoonup> int64) \<Rightarrow> string \<Rightarrow> int64" where
  "lookup0 m k = (case m k of None \<Rightarrow> 0 | Some v \<Rightarrow> v)"

definition initial_state :: state where
  "initial_state = \<lparr>lastPushedTimestamp = Map.empty, globalLatestTimestamp = 0\<rparr>"

fun getLatestTimestamp_from :: "int64 \<Rightarrow> TimeValue list \<Rightarrow> int64" where
  "getLatestTimestamp_from latest [] = latest"
| "getLatestTimestamp_from latest (v # values) =
     getLatestTimestamp_from (if latest <s TimeValue.Timestamp v then TimeValue.Timestamp v else latest)
       values"

definition getLatestTimestamp :: "TimeValue list \<Rightarrow> int64" where
  "getLatestTimestamp values = getLatestTimestamp_from 0 values"

definition updateGlobalTimestamp :: "int64 \<Rightarrow> state \<Rightarrow> state" where
  "updateGlobalTimestamp ts s =
     (if globalLatestTimestamp s <s ts then s\<lparr>globalLatestTimestamp := ts\<rparr> else s)"

text \<open>
  The inner loop of pushMetrics (lines 246-256) over the readings of one envelope:
  \<open>lastTs\<close> was read before the loop, the batch \<open>timeseries\<close> and the state are
  threaded through.
\<close>

fun push_readings ::
  "string \<Rightarrow> string \<Rightarrow> int64 \<Rightarrow> TimeValue list \<Rightarrow> prompb_TimeSeries list \<times> state \<Rightarrow>
   prompb_TimeSeries list \<times> state" where
  "push_readings ty pname lastTs [] (timeseries, s) = (timeseries, s)"
| "push_readings ty pname lastTs (reading # rest) (timeseries, s) =
     (if TimeValue.Timestamp reading \<le>s lastTs then
        push_readings ty pname lastTs rest (timeseries, s)
      else
        let timestampMs = TimeValue.Timestamp reading * 1000;
            timeseries' = timeseries @ [buildTimeSeries pname (TimeValue.Value reading) timestampMs];
            s1 = (if lookup0 (lastPushedTimestamp s) ty <s TimeValue.Timestamp reading
                  then s\<lparr>lastPushedTimestamp :=
                           (lastPushedTimestamp s)(ty \<mapsto> TimeValue.Timestamp reading)\<rparr>
                  else s);
            s2 = updateGlobalTimestamp (TimeValue.Timestamp reading) s1
        in push_readings ty pname lastTs rest (timeseries', s2))"

text \<open>The body of the outer loop (lines 221-257) for one envelope \<open>m\<close>.\<close>

definition push_metric ::
  "Metric \<Rightarrow> prompb_TimeSeries list \<times> state \<Rightarrow> prompb_TimeSeries list \<times> state" where
  "push_metric m acc =
     (case acc of (timeseries, s) \<Rightarrow>
      (case metricRegistry (Type m) of
         None \<Rightarrow> acc
       | Some config \<Rightarrow>
           if PrometheusName config = [] \<or> MetricType config \<noteq> ''timeseries'' then acc
           else
             (case Unmarshal_TimeSeriesMetric (Object m) of
                None \<Rightarrow> acc
              | Some v \<Rightarrow>
                  let lastTs = lookup0 (lastPushedTimestamp s) (Type m) in
                  if Type m = ''steps'' then
                    (if lastTs <s TimeSeriesMetric.DayStartTimestamp v then
                       let timestampMs = TimeSeriesMetric.DayStartTimestamp v * 1000 in
                       (timeseries @ [buildTimeSeries (PrometheusName config) (Total v) timestampMs],
                        updateGlobalTimestamp (TimeSeriesMetric.DayStartTimestamp v)
                          (s\<lparr>lastPushedTimestamp :=
                               (lastPushedTimestamp s)(Type m \<mapsto> TimeSeriesMetric.DayStartTimestamp v)\<rparr>))
                     else acc)
                  else
                    push_readings (Type m) (PrometheusName config) lastTs (Values v)
                      (timeseries, s))))"

fun push_loop ::
  "Metric list \<Rightarrow> prompb_TimeSeries list \<times> state \<Rightarrow> prompb_TimeSeries list \<times> state" where
  "push_loop [] acc = acc"
| "push_loop (m # metrics) acc = push_loop metrics (push_metric m acc)"

text \<open>
  pushMetrics returns its error, and the model returns with it the calls of
  \<^verbatim>\<open>rwClient.Write\<close> that were made (none or one batch) and the state the call leaves.
  A \<^verbatim>\<open>nil\<close> client is \<open>None\<close>.
\<close>

definition pushMetrics ::
  "Metric list \<Rightarrow> RemoteWriteClient option \<Rightarrow> state \<Rightarrow>
   error option \<times> prompb_TimeSeries list list \<times> state" where
  "pushMetrics metrics rwClient s =
     (case rwClient of
        None \<Rightarrow> (None, [], s)
      | Some c \<Rightarrow>
          (case push_loop metrics ([], s) of (timeseries, s') \<Rightarrow>
             if length timeseries = 0 then (None, [], s')
             else (Write c timeseries, [timeseries], s')))"

text \<open>
  fetchAndPushMetrics, with the answer of \<^verbatim>\<open>makeRequest\<close> (a network call) given: the
  loop over \<^verbatim>\<open>resp.Data.Metrics\<close> pushes the first entry the iteration yields and
  breaks.
\<close>

definition fetchAndPushMetrics ::
  "error + APIResponse \<Rightarrow> RemoteWriteClient option \<Rightarrow> state \<Rightarrow>
   error option \<times> prompb_TimeSeries list list \<times> state" where
  "fetchAndPushMetrics made rwClient s =
     (case made of
        Inl err \<Rightarrow> (Some err, [], s)
      | Inr resp \<Rightarrow>
          (case Error resp of
             Some e \<Rightarrow> (Some (APIError e), [], s)
           | None \<Rightarrow>
               (case Metrics (Data resp) of
                  [] \<Rightarrow> (None, [], s)
                | (date, metrics) # others \<Rightarrow>
                    (case pushMetrics metrics rwClient s of
                       (Some err, writes, s') \<Rightarrow> (Some (PushMetricsError err), writes, s')
                     | (None, writes, s') \<Rightarrow> (None, writes, s')))))"

section \<open>Rendering: getMetricValue and displayMetric\<close>

text \<open>
  \<^verbatim>\<open>fmt.Sprintf\<close> and \<^verbatim>\<open>fmt.Printf\<close> are the standard library's. A formatted text is
  kept as the call that makes it, the format string with its arguments; a string
  literal of the source is \<open>Lit\<close>, and \<open>UnixFormat ts layout\<close> is
  \<^verbatim>\<open>time.Unix(ts, 0).Format(layout)\<close>. What displayMetric prints is the list of its
  \<^verbatim>\<open>Printf\<close> calls in order, so printing nothing is the empty list.
\<close>

datatype fmt_arg = ArgFloat float64 | ArgInt int | ArgString rendered
  and rendered = Lit string | Sprintf string "fmt_arg list" | UnixFormat int64 string

text \<open>
  The conversion \<^verbatim>\<open>int(minutes)\<close> truncates towards zero. \<^verbatim>\<open>int\<close> has 64 bits on the
  platforms the program is built for; for a value outside its range Go leaves the
  result to the implementation, and on amd64 the conversion then yields the smallest
  int64, which is what the model returns. Go's \<^verbatim>\<open>/\<close> and \<^verbatim>\<open>%\<close> on integers truncate
  towards zero as well.
\<close>

definition go_int :: "float64 \<Rightarrow> int" where
  "go_int x =
     (let t = (if 0 \<le> x then \<lfloor>x\<rfloor> else \<lceil>x\<rceil>)
      in if - 9223372036854775808 \<le> t \<and> t < 9223372036854775808 then t
         else - 9223372036854775808)"

definition formatDuration :: "float64 \<Rightarrow> rendered" where
  "formatDuration minutes =
     (let h = go_int minutes sdiv 60;
          m = go_int minutes smod 60
      in if 0 < h then Sprintf ''%dh %dm'' [ArgInt h, ArgInt m]
         else Sprintf ''%dm'' [ArgInt m])"

definition formatTimestamp :: "int64 \<Rightarrow> rendered" where
  "formatTimestamp ts = UnixFormat ts ''15:04''"

definition printSection :: "string \<Rightarrow> rendered list" where
  "printSection title = [Sprintf ''\<newline>  %s\<newline>'' [ArgString (Lit title)]]"

fun getMetricValue :: "Metric list \<Rightarrow> string \<Rightarrow> rendered" where
  "getMetricValue [] metricType = Lit ''not found''"
| "getMetricValue (m # metrics) metricType =
     (if Type m \<noteq> metricType then getMetricValue metrics metricType
      else if metricType = ''sleep'' then
        (case Unmarshal_SleepMetric (Object m) of
           None \<Rightarrow> Lit ''null''
         | Some v \<Rightarrow>
             (case Score v of
                Some score \<Rightarrow> Sprintf ''%.0f'' [ArgFloat score]
              | None \<Rightarrow> Lit ''null''))
      else if metricType = ''motion'' then
        (case Unmarshal_TimeSeriesMetric (Object m) of
           None \<Rightarrow> Lit ''null''
         | Some v \<Rightarrow> Sprintf ''%d'' [ArgInt (int (length (Values v)))])
      else
        (case metricRegistry metricType of
           None \<Rightarrow> Lit ''not found''
         | Some config \<Rightarrow>
             if MetricType config = ''timeseries'' then
               (case Unmarshal_TimeSeriesMetric (Object m) of
                  None \<Rightarrow> Lit ''null''
                | Some v \<Rightarrow>
                    let value =
                          (if Field config = ''last'' then LastReading v
                           else if Field config = ''avg'' then Avg v
                           else if Field config = ''total'' then Total v
                           else 0)
                    in if MetricConfig.Unit config = degC then Sprintf ''%.1f'' [ArgFloat value]
                       else Sprintf ''%.0f'' [ArgFloat value])
             else if MetricType config = ''simple'' then
               (case Unmarshal_SimpleMetric (Object m) of
                  None \<Rightarrow> Lit ''null''
                | Some v \<Rightarrow>
                    (case SimpleMetric.Value v of
                       None \<Rightarrow> Lit ''null''
                     | Some x \<Rightarrow>
                         if IsDuration config then formatDuration x
                         else if MetricConfig.Unit config = degC \<or> metricType = ''hba1c'' \<or>
                                 metricType = ''glucose_variability'' \<or> metricType = ''vo2_max''
                           then Sprintf ''%.1f'' [ArgFloat x]
                         else Sprintf ''%.0f'' [ArgFloat x]))
             else getMetricValue metrics metricType))"

definition display_reading :: "Metric \<Rightarrow> MetricConfig \<Rightarrow> string \<Rightarrow> TimeValue \<Rightarrow> rendered" where
  "display_reading m config unit r =
     (if MetricConfig.Unit config = degC then
        Sprintf ''      - %.1f%s @ %s\<newline>''
          [ArgFloat (TimeValue.Value r), ArgString (Lit unit),
           ArgString (formatTimestamp (TimeValue.Timestamp r))]
      else if MetricConfig.Unit config = ''%'' \<or> Type m = ''spo2'' then
        Sprintf ''      - %.0f%% @ %s\<newline>''
          [ArgFloat (TimeValue.Value r),
           ArgString (formatTimestamp (TimeValue.Timestamp r))]
      else
        Sprintf ''      - %.0f %s @ %s\<newline>''
          [ArgFloat (TimeValue.Value r), ArgString (Lit unit),
           ArgString (formatTimestamp (TimeValue.Timestamp r))])"

definition displayMetric :: "Metric \<Rightarrow> rendered list" where
  "displayMetric m =
     (if Type m = ''sleep'' then
        (case Unmarshal_SleepMetric (Object m) of
           None \<Rightarrow> []
         | Some v \<Rightarrow>
             if Score v = None \<and> TotalSleep v = None then []
             else
               printSection ''SLEEP'' @
               (case Score v of
                  Some score \<Rightarrow> [Sprintf ''      Score: %.0f\<newline>'' [ArgFloat score]]
                | None \<Rightarrow> []) @
               (case TotalSleep v of
                  Some minutes \<Rightarrow>
                    [Sprintf ''      Total: %s\<newline>'' [ArgString (formatDuration minutes)]]
                | None \<Rightarrow> []) @
               (case Efficiency v of
                  Some eff \<Rightarrow> [Sprintf ''      Efficiency: %.0f%%\<newline>'' [ArgFloat eff]]
                | None \<Rightarrow> []))
      else if Type m = ''motion'' then
        (case Unmarshal_TimeSeriesMetric (Object m) of
           None \<Rightarrow> []
         | Some v \<Rightarrow>
             if length (Values v) = 0 then []
             else printSection ''MOTION'' @
                  [Sprintf ''      Readings: %d\<newline>'' [ArgInt (int (length (Values v)))]])
      else if Type m = ''steps'' then
        (case Unmarshal_TimeSeriesMetric (Object m) of
           None \<Rightarrow> []
         | Some v \<Rightarrow>
             if 0 < Total v \<or> 0 < Avg v then
               printSection ''STEPS'' @
               [Sprintf ''      Total: %.0f | Avg: %.0f\<newline>'' [ArgFloat (Total v), ArgFloat (Avg v)]]
             else [])
      else
        (case metricRegistry (Type m) of
           None \<Rightarrow> []
         | Some config \<Rightarrow>
             if MetricType config = ''timeseries'' then
               (case Unmarshal_TimeSeriesMetric (Object m) of
                  None \<Rightarrow> []
                | Some v \<Rightarrow>
                    if TimeSeriesMetric.Title v = [] then []
                    else
                      let unit = (if MetricConfig.Unit config = [] then TimeSeriesMetric.Unit v
                                  else MetricConfig.Unit config)
                      in printSection (DisplayName config) @
                         (if Field config = ''last'' then
                            (if MetricConfig.Unit config = degC then
                               [Sprintf ''      Last: %.1f%s\<newline>''
                                  [ArgFloat (LastReading v), ArgString (Lit unit)]]
                             else
                               [Sprintf ''      Last: %.0f %s\<newline>''
                                  [ArgFloat (LastReading v), ArgString (Lit unit)]])
                          else if Field config = ''avg'' then
                            [Sprintf ''      Average: %.0f%s\<newline>''
                               [ArgFloat (Avg v), ArgString (Lit unit)]]
                          else if Field config = ''total'' then
                            [Sprintf ''      Total: %.0f\<newline>'' [ArgFloat (Total v)]]
                          else []) @
                         map (display_reading m config unit) (Values v))
             else if MetricType config = ''simple'' then
               (case Unmarshal_SimpleMetric (Object m) of
                  None \<Rightarrow> []
                | Some v \<Rightarrow>
                    (case SimpleMetric.Value v of
                       None \<Rightarrow> []
                     | Some x \<Rightarrow>
                         printSection (DisplayName config) @
                         (if IsDuration config then
                            [Sprintf ''      Duration: %s\<newline>'' [ArgString (formatDuration x)]]
                          else if MetricConfig.Unit config = degC then
                            [Sprintf ''      Value: %.1f%s\<newline>''
                               [ArgFloat x, ArgString (Lit (MetricConfig.Unit config))]]
                          else if MetricConfig.Unit config = ''%'' then
                            [Sprintf ''      Value: %.0f%%\<newline>'' [ArgFloat x]]
                          else if MetricConfig.Unit config = ''ml/kg/min'' \<or> Type m = ''hba1c'' \<or>
                                  Type m = ''glucose_variability'' then
                            [Sprintf ''      Value: %.1f %s\<newline>''
                               [ArgFloat x, ArgString (Lit (MetricConfig.Unit config))]]
                          else if MetricConfig.Unit config \<noteq> [] then
                            [Sprintf ''      Value: %.0f %s\<newline>''
                               [ArgFloat x, ArgString (Lit (MetricConfig.Unit config))]]
                          else
                            [Sprintf ''      Score: %.0f\<newline>'' [ArgFloat x]])))
             else []))"

section \<open>The forwarding rules as the specification words them\<close>

text \<open>
  The vocabulary of the theorems about pushMetrics, in two groups.

  The first group is not a translation of code. It says in the specification's words
  what is to be forwarded: the high-water mark of a wire type (\<open>hwm\<close>), the
  envelopes that are forwarded at all (\<open>forwardable\<close>), and the readings of an
  envelope that are unseen with respect to the marks of a given state
  (\<open>unseen_readings\<close>: strictly greater than the mark; for the cumulative steps
  counter the day's total at the day-start, when the day-start is strictly greater than
  the mark), each with its wire sample (\<open>wire_sample\<close>). The lemmas
  \<open>push_metric_eq\<close>, \<open>push_loop_eq\<close> and \<open>pushMetrics_eq\<close> below prove that
  the code forwards exactly these.

  The second group is made of the code's own functions: the state that the loop body
  and the loop leave (\<open>after_metric\<close>, \<open>after_batch\<close>), a run of calls of
  pushMetrics (\<open>pushMetrics_run\<close>), and the unseen readings collected along the
  states the code goes through (\<open>forwarded_by_envelope\<close>, \<open>batch_forwarded\<close>,
  \<open>run_forwarded\<close>).
\<close>

definition hwm :: "state \<Rightarrow> string \<Rightarrow> int64" where
  "hwm s ty = lookup0 (lastPushedTimestamp s) ty"

definition forwardable :: "Metric \<Rightarrow> bool" where
  "forwardable m =
     (case metricRegistry (Type m) of
        None \<Rightarrow> False
      | Some config \<Rightarrow> PrometheusName config \<noteq> [] \<and> MetricType config = ''timeseries'')"

record forwarded_reading =
  wireType :: string
  outputName :: string
  readingValue :: float64
  epochSeconds :: int64

definition wire_sample :: "forwarded_reading \<Rightarrow> prompb_TimeSeries" where
  "wire_sample f = buildTimeSeries (outputName f) (readingValue f) (epochSeconds f * 1000)"

definition unseen_readings :: "state \<Rightarrow> Metric \<Rightarrow> forwarded_reading list" where
  "unseen_readings s m =
     (case metricRegistry (Type m) of
        None \<Rightarrow> []
      | Some config \<Rightarrow>
          if PrometheusName config = [] \<or> MetricType config \<noteq> ''timeseries'' then []
          else
            (case Unmarshal_TimeSeriesMetric (Object m) of
               None \<Rightarrow> []
             | Some v \<Rightarrow>
                 if Type m = ''steps'' then
                   (if hwm s (Type m) <s TimeSeriesMetric.DayStartTimestamp v then
                      [\<lparr>wireType = Type m, outputName = PrometheusName config,
                        readingValue = Total v,
                        epochSeconds = TimeSeriesMetric.DayStartTimestamp v\<rparr>]
                    else [])
                 else
                   map (\<lambda>r. \<lparr>wireType = Type m, outputName = PrometheusName config,
                              readingValue = TimeValue.Value r,
                              epochSeconds = TimeValue.Timestamp r\<rparr>)
                     (filter (\<lambda>r. hwm s (Type m) <s TimeValue.Timestamp r) (Values v))))"

text \<open>
  Recording one forwarded timestamp: the two updates the source makes after it has
  appended a sample (lines 252-255, and lines 239-240 for steps, where the test on the
  mark has already been made).
\<close>

definition mark_forwarded :: "string \<Rightarrow> int64 \<Rightarrow> state \<Rightarrow> state" where
  "mark_forwarded ty ts s =
     updateGlobalTimestamp ts
       (if hwm s ty <s ts then s\<lparr>lastPushedTimestamp := (lastPushedTimestamp s)(ty \<mapsto> ts)\<rparr>
        else s)"

text \<open>
  The state that the loop body and the loop of pushMetrics leave, and the readings a
  batch forwards envelope by envelope: each envelope is judged in the state its
  predecessors in the batch have left, the state the code is in when it takes the
  envelope up.
\<close>

definition after_metric :: "Metric \<Rightarrow> state \<Rightarrow> state" where
  "after_metric m s = snd (push_metric m ([], s))"

definition after_batch :: "Metric list \<Rightarrow> state \<Rightarrow> state" where
  "after_batch metrics s = snd (push_loop metrics ([], s))"

fun forwarded_by_envelope :: "state \<Rightarrow> Metric list \<Rightarrow> forwarded_reading list list" where
  "forwarded_by_envelope s [] = []"
| "forwarded_by_envelope s (m # metrics) =
     unseen_readings s m # forwarded_by_envelope (after_metric m s) metrics"

definition batch_forwarded :: "state \<Rightarrow> Metric list \<Rightarrow> forwarded_reading list" where
  "batch_forwarded s metrics = concat (forwarded_by_envelope s metrics)"

text \<open>
  A run of the process: pushMetrics called again and again, each call with its metrics
  and its client, from the state the previous call has left.
\<close>

fun pushMetrics_run ::
  "(Metric list \<times> RemoteWriteClient option) list \<Rightarrow> state \<Rightarrow> state" where
  "pushMetrics_run [] s = s"
| "pushMetrics_run ((metrics, rwClient) # calls) s =
     pushMetrics_run calls (snd (snd (pushMetrics metrics rwClient s)))"

fun run_forwarded ::
  "(Metric list \<times> RemoteWriteClient option) list \<Rightarrow> state \<Rightarrow> forwarded_reading list" where
  "run_forwarded [] s = []"
| "run_forwarded ((metrics, rwClient) # calls) s =
     (case rwClient of None \<Rightarrow> [] | Some c \<Rightarrow> batch_forwarded s metrics) @
     run_forwarded calls (snd (snd (pushMetrics metrics rwClient s)))"

section \<open>Example inputs\<close>

text \<open>
  Envelopes and clients used to instantiate the theorems. A time-series payload such
  as \<^verbatim>\<open>{"day_start_timestamp":86400,"title":"T","values":[{"value":70,"timestamp":1000}],"total":500}\<close>
  decodes into all three target types (keys a target does not know are skipped); a
  payload that is not a JSON object, \<^verbatim>\<open>"oops"\<close> say, decodes into none.
\<close>

definition example_timeseries ::
  "string \<Rightarrow> int64 \<Rightarrow> (float64 \<times> int64) list \<Rightarrow> float64 \<Rightarrow> Metric" where
  "example_timeseries ty dayStart readings tot =
     \<lparr>Type = ty,
      Object =
        \<lparr>Unmarshal_TimeSeriesMetric =
           Some \<lparr>TimeSeriesMetric.DayStartTimestamp = dayStart, TimeSeriesMetric.Title = ''T'',
                 Values = map (\<lambda>p. \<lparr>TimeValue.Value = fst p, TimeValue.Timestamp = snd p\<rparr>) readings,
                 LastReading = 0, TimeSeriesMetric.Unit = [], Subtitle = [], Avg = 0,
                 Total = tot\<rparr>,
         Unmarshal_SimpleMetric =
           Some \<lparr>SimpleMetric.Value = None, SimpleMetric.Title = ''T'',
                 SimpleMetric.DayStartTimestamp = dayStart\<rparr>,
         Unmarshal_SleepMetric =
           Some \<lparr>SleepMetric.DayStartTimestamp = dayStart, Score = None, TotalSleep = None,
                 Efficiency = None, TimeInBed = None, DeepSleep = None, LightSleep = None,
                 RemSleep = None\<rparr>\<rparr>\<rparr>"

definition example_simple :: "string \<Rightarrow> float64 option \<Rightarrow> Metric" where
  "example_simple ty x =
     \<lparr>Type = ty,
      Object =
        \<lparr>Unmarshal_TimeSeriesMetric =
           Some \<lparr>TimeSeriesMetric.DayStartTimestamp = 0, TimeSeriesMetric.Title = ''T'',
                 Values = [], LastReading = 0, TimeSeriesMetric.Unit = [], Subtitle = [],
                 Avg = 0, Total = 0\<rparr>,
         Unmarshal_SimpleMetric =
           Some \<lparr>SimpleMetric.Value = x, SimpleMetric.Title = ''T'',
                 SimpleMetric.DayStartTimestamp = 0\<rparr>,
         Unmarshal_SleepMetric =
           Some \<lparr>SleepMetric.DayStartTimestamp = 0, Score = None, TotalSleep = None,
                 Efficiency = None, TimeInBed = None, DeepSleep = None, LightSleep = None,
                 RemSleep = None\<rparr>\<rparr>\<rparr>"

definition example_sleep :: "float64 option \<Rightarrow> float64 option \<Rightarrow> float64 option \<Rightarrow> Metric" where
  "example_sleep sc tot eff =
     \<lparr>Type = ''sleep'',
      Object =
        \<lparr>Unmarshal_TimeSeriesMetric =
           Some \<lparr>TimeSeriesMetric.DayStartTimestamp = 86400, TimeSeriesMetric.Title = [],
                 Values = [], LastReading = 0, TimeSeriesMetric.Unit = [], Subtitle = [],
                 Avg = 0, Total = 0\<rparr>,
         Unmarshal_SimpleMetric =
           Some \<lparr>SimpleMetric.Value = None, SimpleMetric.Title = [],
                 SimpleMetric.DayStartTimestamp = 86400\<rparr>,
         Unmarshal_SleepMetric =
           Some \<lparr>SleepMetric.DayStartTimestamp = 86400, Score = sc, TotalSleep = tot,
                 Efficiency = eff, TimeInBed = None, DeepSleep = None, LightSleep = None,
                 RemSleep = None\<rparr>\<rparr>\<rparr>"

definition example_malformed :: "string \<Rightarrow> Metric" where
  "example_malformed ty =
     \<lparr>Type = ty,
      Object = \<lparr>Unmarshal_TimeSeriesMetric = None, Unmarshal_SimpleMetric = None,
                Unmarshal_SleepMetric = None\<rparr>\<rparr>"

definition accepting_client :: RemoteWriteClient where
  "accepting_client =
     \<lparr>url = ''http://localhost:9090/api/v1/write'', endpoint = (\<lambda>batch. Response 204 [])\<rparr>"

definition unreachable_client :: RemoteWriteClient where
  "unreachable_client =
     \<lparr>url = ''http://localhost:9090/api/v1/write'',
      endpoint = (\<lambda>batch. DoFails ''connection refused'')\<rparr>"

definition example_run :: "(Metric list \<times> RemoteWriteClient option) list" where
  "example_run =
     [([example_timeseries ''hr'' 86400 [(70, 1000), (72, 1005)] 0], Some unreachable_client),
      ([example_timeseries ''steps'' 86400 [] 500,
        example_timeseries ''hr'' 86400 [(70, 1000), (72, 1005), (75, 1010)] 0],
       Some accepting_client),
      ([example_timeseries ''hr'' 86400 [(80, 90000)] 0], None)]"

definition example_response :: "(string \<times> Metric list) list \<Rightarrow> APIResponse" where
  "example_response dates =
     \<lparr>Data = \<lparr>Metrics = dates, LatestTimeZone = ''Asia/Kolkata''\<rparr>, Error = None, Status = 200\<rparr>"

section \<open>pushMetrics against the forwarding rules\<close>

subsection \<open>One envelope\<close>

lemma updateGlobalTimestamp_max:
  "globalLatestTimestamp (updateGlobalTimestamp ts s) = signed.max (globalLatestTimestamp s) ts"
  by (auto simp: updateGlobalTimestamp_def signed.max_def)

lemma updateGlobalTimestamp_marks:
  "lastPushedTimestamp (updateGlobalTimestamp ts s) = lastPushedTimestamp s"
  by (simp add: updateGlobalTimestamp_def)

lemma hwm_updateGlobalTimestamp: "hwm (updateGlobalTimestamp ts s) ty = hwm s ty"
  by (simp add: hwm_def updateGlobalTimestamp_marks)

lemma hwm_mark_forwarded:
  "hwm (mark_forwarded ty ts s) ty' = (if ty' = ty then signed.max (hwm s ty) ts else hwm s ty')"
  by (auto simp: mark_forwarded_def hwm_def lookup0_def signed.max_def updateGlobalTimestamp_marks)

lemma global_mark_forwarded:
  "globalLatestTimestamp (mark_forwarded ty ts s) = signed.max (globalLatestTimestamp s) ts"
  by (auto simp: mark_forwarded_def updateGlobalTimestamp_max)

lemma push_readings_eq:
  "push_readings ty pname lastTs rs (acc, s) =
     (acc @ map (\<lambda>r. buildTimeSeries pname (TimeValue.Value r) (TimeValue.Timestamp r * 1000))
              (filter (\<lambda>r. lastTs <s TimeValue.Timestamp r) rs),
      foldl (\<lambda>s r. mark_forwarded ty (TimeValue.Timestamp r) s) s
        (filter (\<lambda>r. lastTs <s TimeValue.Timestamp r) rs))"
proof (induction rs arbitrary: acc s)
  case Nil
  show ?case by simp
next
  case (Cons r rs)
  show ?case
  proof (cases "TimeValue.Timestamp r \<le>s lastTs")
    case True
    then have "\<not> lastTs <s TimeValue.Timestamp r" by (simp add: signed.not_less)
    with True Cons.IH show ?thesis by simp
  next
    case False
    then have "lastTs <s TimeValue.Timestamp r" by (simp add: signed.not_le)
    with False Cons.IH show ?thesis
      by (simp add: Let_def mark_forwarded_def hwm_def)
  qed
qed

text \<open>
  The loop body appends the samples of the unseen readings and records each of them.
\<close>

lemma push_metric_eq:
  "push_metric m (acc, s) =
     (acc @ map wire_sample (unseen_readings s m),
      foldl (\<lambda>s f. mark_forwarded (wireType f) (epochSeconds f) s) s (unseen_readings s m))"
proof (cases "metricRegistry (Type m)")
  case None
  then show ?thesis by (simp add: push_metric_def unseen_readings_def)
next
  case (Some config)
  show ?thesis
  proof (cases "PrometheusName config = [] \<or> MetricType config \<noteq> ''timeseries''")
    case True
    with Some show ?thesis by (auto simp add: push_metric_def unseen_readings_def)
  next
    case elig: False
    show ?thesis
    proof (cases "Unmarshal_TimeSeriesMetric (Object m)")
      case None
      with Some elig show ?thesis by (auto simp add: push_metric_def unseen_readings_def)
    next
      case (Some v)
      show ?thesis
      proof (cases "Type m = ''steps''")
        case True
        with \<open>metricRegistry (Type m) = Some config\<close> elig Some show ?thesis
          by (auto simp add: push_metric_def unseen_readings_def Let_def wire_sample_def
              mark_forwarded_def hwm_def)
      next
        case False
        with \<open>metricRegistry (Type m) = Some config\<close> elig Some show ?thesis
          by (simp add: push_metric_def unseen_readings_def Let_def push_readings_eq
              wire_sample_def hwm_def foldl_map comp_def)
      qed
    qed
  qed
qed


lemma after_metric_eq:
  "after_metric m s =
     foldl (\<lambda>s f. mark_forwarded (wireType f) (epochSeconds f) s) s (unseen_readings s m)"
  by (simp add: after_metric_def push_metric_eq)

lemma push_metric_split:
  "push_metric m (acc, s) = (acc @ map wire_sample (unseen_readings s m), after_metric m s)"
  by (simp add: after_metric_def push_metric_eq)

subsection \<open>The loop over a batch\<close>

lemma push_loop_acc:
  "push_loop ms (acc, s) = (acc @ fst (push_loop ms ([], s)), snd (push_loop ms ([], s)))"
proof (induction ms arbitrary: acc s)
  case Nil
  show ?case by simp
next
  case (Cons m ms)
  have "push_loop (m # ms) (acc, s) =
          push_loop ms (acc @ map wire_sample (unseen_readings s m), after_metric m s)"
    by (simp add: push_metric_split)
  also have "\<dots> = ((acc @ map wire_sample (unseen_readings s m)) @
                      fst (push_loop ms ([], after_metric m s)),
                    snd (push_loop ms ([], after_metric m s)))"
    by (rule Cons.IH)
  finally have l: "push_loop (m # ms) (acc, s) =
      ((acc @ map wire_sample (unseen_readings s m)) @ fst (push_loop ms ([], after_metric m s)),
       snd (push_loop ms ([], after_metric m s)))" .
  have "push_loop (m # ms) ([], s) =
          push_loop ms (map wire_sample (unseen_readings s m), after_metric m s)"
    by (simp add: push_metric_split)
  also have "\<dots> = (map wire_sample (unseen_readings s m) @
                      fst (push_loop ms ([], after_metric m s)),
                    snd (push_loop ms ([], after_metric m s)))"
    by (rule Cons.IH)
  finally have r: "push_loop (m # ms) ([], s) =
      (map wire_sample (unseen_readings s m) @ fst (push_loop ms ([], after_metric m s)),
       snd (push_loop ms ([], after_metric m s)))" .
  show ?case unfolding l r by simp
qed

lemma after_batch_Nil: "after_batch [] s = s"
  by (simp add: after_batch_def)

lemma after_batch_Cons: "after_batch (m # ms) s = after_batch ms (after_metric m s)"
proof -
  have "snd (push_loop ms (push_metric m ([], s))) = snd (push_loop ms ([], after_metric m s))"
    by (subst push_metric_split, subst push_loop_acc) simp
  then show ?thesis by (simp add: after_batch_def)
qed

lemma after_batch_append: "after_batch (xs @ ys) s = after_batch ys (after_batch xs s)"
  by (induction xs arbitrary: s) (simp_all add: after_batch_Nil after_batch_Cons)

lemma push_loop_eq:
  "push_loop ms (acc, s) = (acc @ map wire_sample (batch_forwarded s ms), after_batch ms s)"
proof (induction ms arbitrary: acc s)
  case Nil
  show ?case by (simp add: batch_forwarded_def after_batch_Nil)
next
  case (Cons m ms)
  have "push_loop (m # ms) (acc, s) =
          push_loop ms (acc @ map wire_sample (unseen_readings s m), after_metric m s)"
    by (simp add: push_metric_split)
  also have "\<dots> = ((acc @ map wire_sample (unseen_readings s m)) @
                      map wire_sample (batch_forwarded (after_metric m s) ms),
                    after_batch ms (after_metric m s))"
    by (rule Cons.IH)
  finally show ?case
    by (simp add: batch_forwarded_def after_batch_Cons)
qed

lemma pushMetrics_eq:
  "pushMetrics metrics (Some c) s =
     (if batch_forwarded s metrics = [] then (None, [], after_batch metrics s)
      else (Write c (map wire_sample (batch_forwarded s metrics)),
            [map wire_sample (batch_forwarded s metrics)], after_batch metrics s))"
  by (simp add: pushMetrics_def push_loop_eq)

lemma pushMetrics_nil_client: "pushMetrics metrics None s = (None, [], s)"
  by (simp add: pushMetrics_def)

lemma wireType_unseen: "f \<in> set (unseen_readings s m) \<Longrightarrow> wireType f = Type m"
  by (auto simp: unseen_readings_def split: option.splits if_splits)

lemma unseen_above_mark: "f \<in> set (unseen_readings s m) \<Longrightarrow> hwm s (Type m) <s epochSeconds f"
  by (auto simp: unseen_readings_def split: option.splits if_splits)

subsection \<open>Marks are running maxima\<close>

lemma hwm_foldl_mark:
  "hwm (foldl (\<lambda>s f. mark_forwarded (wireType f) (epochSeconds f) s) s fs) ty =
     foldl signed.max (hwm s ty) (map epochSeconds (filter (\<lambda>f. wireType f = ty) fs))"
  by (induction fs arbitrary: s) (simp_all add: hwm_mark_forwarded)

lemma global_foldl_mark:
  "globalLatestTimestamp (foldl (\<lambda>s f. mark_forwarded (wireType f) (epochSeconds f) s) s fs) =
     foldl signed.max (globalLatestTimestamp s) (map epochSeconds fs)"
  by (induction fs arbitrary: s) (simp_all add: global_mark_forwarded)

lemma foldl_smax_Max: "foldl signed.max a xs = signed.Max (insert a (set xs))"
proof (induction xs arbitrary: a)
  case Nil
  show ?case by simp
next
  case (Cons x xs)
  have "foldl signed.max a (x # xs) = signed.Max (insert (signed.max a x) (set xs))"
    by (simp add: Cons.IH)
  also have "\<dots> = signed.Max (insert a (insert x (set xs)))"
    by (cases "set xs = {}") (simp_all add: signed.max.assoc)
  finally show ?case by simp
qed


lemma batch_forwarded_Nil: "batch_forwarded s [] = []"
  by (simp add: batch_forwarded_def)

lemma batch_forwarded_Cons:
  "batch_forwarded s (m # ms) = unseen_readings s m @ batch_forwarded (after_metric m s) ms"
  by (simp add: batch_forwarded_def)

lemma hwm_after_metric_foldl:
  "hwm (after_metric m s) ty =
     foldl signed.max (hwm s ty)
       (map epochSeconds (filter (\<lambda>f. wireType f = ty) (unseen_readings s m)))"
  by (simp add: after_metric_eq hwm_foldl_mark)

lemma hwm_after_batch_foldl:
  "hwm (after_batch ms s) ty =
     foldl signed.max (hwm s ty)
       (map epochSeconds (filter (\<lambda>f. wireType f = ty) (batch_forwarded s ms)))"
  by (induction ms arbitrary: s)
    (simp_all add: after_batch_Nil after_batch_Cons batch_forwarded_Nil batch_forwarded_Cons
      hwm_after_metric_foldl)

lemma global_after_metric_foldl:
  "globalLatestTimestamp (after_metric m s) =
     foldl signed.max (globalLatestTimestamp s) (map epochSeconds (unseen_readings s m))"
  by (simp add: after_metric_eq global_foldl_mark)

lemma global_after_batch_foldl:
  "globalLatestTimestamp (after_batch ms s) =
     foldl signed.max (globalLatestTimestamp s) (map epochSeconds (batch_forwarded s ms))"
  by (induction ms arbitrary: s)
    (simp_all add: after_batch_Nil after_batch_Cons batch_forwarded_Nil batch_forwarded_Cons
      global_after_metric_foldl)

lemma hwm_after_batch:
  "hwm (after_batch ms s) ty =
     signed.Max (insert (hwm s ty)
       (epochSeconds ` set (filter (\<lambda>f. wireType f = ty) (batch_forwarded s ms))))"
  by (simp add: hwm_after_batch_foldl foldl_smax_Max)

lemma global_after_batch:
  "globalLatestTimestamp (after_batch ms s) =
     signed.Max (insert (globalLatestTimestamp s) (epochSeconds ` set (batch_forwarded s ms)))"
  by (simp add: global_after_batch_foldl foldl_smax_Max)

lemma hwm_after_batch_mono: "hwm s ty \<le>s hwm (after_batch ms s) ty"
  by (simp add: hwm_after_batch)

lemma hwm_after_metric_mono: "hwm s ty \<le>s hwm (after_metric m s) ty"
  using hwm_after_batch_mono [of s ty "[m]"] by (simp add: after_batch_Cons after_batch_Nil)

lemma forwarded_le_mark_after:
  "f \<in> set (batch_forwarded s ms) \<Longrightarrow> epochSeconds f \<le>s hwm (after_batch ms s) (wireType f)"
  by (simp add: hwm_after_batch)

lemma unseen_readings_cong:
  "hwm s (Type m) = hwm s' (Type m) \<Longrightarrow> unseen_readings s m = unseen_readings s' m"
  by (auto simp: unseen_readings_def split: option.splits)

lemma wireType_batch_forwarded:
  "f \<in> set (batch_forwarded s ms) \<Longrightarrow> wireType f \<in> Type ` set ms"
  by (induction ms arbitrary: s) (auto simp: batch_forwarded_Nil batch_forwarded_Cons wireType_unseen)

lemma hwm_after_batch_other:
  assumes "ty \<notin> Type ` set ms"
  shows "hwm (after_batch ms s) ty = hwm s ty"
proof -
  have "filter (\<lambda>f. wireType f = ty) (batch_forwarded s ms) = []"
    using assms wireType_batch_forwarded [of _ s ms] by (auto simp: filter_empty_conv)
  then show ?thesis by (simp add: hwm_after_batch_foldl)
qed

lemma forwarded_by_envelope_nth:
  "i < length ms \<Longrightarrow>
   forwarded_by_envelope s ms ! i = unseen_readings (after_batch (take i ms) s) (ms ! i)"
proof (induction ms arbitrary: i s)
  case Nil
  then show ?case by simp
next
  case (Cons m ms)
  show ?case
  proof (cases i)
    case 0
    then show ?thesis by (simp add: after_batch_Nil)
  next
    case (Suc k)
    with Cons.prems have "k < length ms" by simp
    from Cons.IH [OF this] Suc show ?thesis by (simp add: after_batch_Cons)
  qed
qed

lemma length_forwarded_by_envelope: "length (forwarded_by_envelope s ms) = length ms"
  by (induction ms arbitrary: s) simp_all

subsection \<open>A batch leaves nothing of itself unseen\<close>

lemma unseen_settled_mono:
  assumes "hwm s (Type m) \<le>s hwm s' (Type m)" and "unseen_readings s m = []"
  shows "unseen_readings s' m = []"
  using assms
  by (auto simp: unseen_readings_def filter_empty_conv word_sless_alt word_sle_eq
      split: option.splits if_splits)

lemma unseen_after_self: "unseen_readings (after_metric m s) m = []"
proof -
  have ge: "epochSeconds f \<le>s hwm (after_metric m s) (Type m)"
    if "f \<in> set (unseen_readings s m)" for f
    using forwarded_le_mark_after [of f s "[m]"] that wireType_unseen [OF that]
    by (simp add: batch_forwarded_Cons batch_forwarded_Nil after_batch_Cons after_batch_Nil)
  have mono: "hwm s (Type m) \<le>s hwm (after_metric m s) (Type m)"
    by (rule hwm_after_metric_mono)
  show ?thesis
  proof (cases "metricRegistry (Type m)")
    case None
    then show ?thesis by (simp add: unseen_readings_def)
  next
    case (Some config)
    show ?thesis
    proof (cases "Unmarshal_TimeSeriesMetric (Object m)")
      case None
      with Some show ?thesis by (simp add: unseen_readings_def)
    next
      case v: (Some v)
      show ?thesis
      proof (cases "PrometheusName config = [] \<or> MetricType config \<noteq> ''timeseries''")
        case True
        with Some show ?thesis by (auto simp: unseen_readings_def)
      next
        case elig: False
        show ?thesis
        proof (cases "Type m = ''steps''")
          case True
          show ?thesis
          proof (cases "hwm s (Type m) <s TimeSeriesMetric.DayStartTimestamp v")
            case up: True
            have "\<lparr>wireType = Type m, outputName = PrometheusName config,
                    readingValue = Total v,
                    epochSeconds = TimeSeriesMetric.DayStartTimestamp v\<rparr>
                  \<in> set (unseen_readings s m)"
              using Some v elig True up by (auto simp: unseen_readings_def)
            from ge [OF this]
            have "\<not> hwm (after_metric m s) (Type m) <s TimeSeriesMetric.DayStartTimestamp v"
              by (simp add: word_sless_alt word_sle_eq)
            with Some v elig True show ?thesis by (auto simp: unseen_readings_def)
          next
            case False
            with mono
            have "\<not> hwm (after_metric m s) (Type m) <s TimeSeriesMetric.DayStartTimestamp v"
              by (simp add: word_sless_alt word_sle_eq)
            with Some v elig True show ?thesis by (auto simp: unseen_readings_def)
          qed
        next
          case ns: False
          have "\<not> hwm (after_metric m s) (Type m) <s TimeValue.Timestamp r"
            if r: "r \<in> set (Values v)" for r
          proof (cases "hwm s (Type m) <s TimeValue.Timestamp r")
            case True
            have "\<lparr>wireType = Type m, outputName = PrometheusName config,
                    readingValue = TimeValue.Value r,
                    epochSeconds = TimeValue.Timestamp r\<rparr>
                  \<in> set (unseen_readings s m)"
              using Some v elig ns True r by (auto simp: unseen_readings_def)
            from ge [OF this] show ?thesis by (simp add: word_sless_alt word_sle_eq)
          next
            case False
            with mono show ?thesis by (simp add: word_sless_alt word_sle_eq)
          qed
          with Some v elig ns show ?thesis
            by (auto simp: unseen_readings_def filter_empty_conv)
        qed
      qed
    qed
  qed
qed

lemma settled_after_batch:
  "m \<in> set ms \<Longrightarrow> unseen_readings (after_batch ms s) m = []"
proof (induction ms arbitrary: s)
  case Nil
  then show ?case by simp
next
  case (Cons x ms)
  show ?case
  proof (cases "m = x")
    case True
    have "unseen_readings (after_metric x s) x = []" by (rule unseen_after_self)
    moreover have "hwm (after_metric x s) (Type x) \<le>s hwm (after_batch ms (after_metric x s)) (Type x)"
      by (rule hwm_after_batch_mono)
    ultimately show ?thesis using True
      by (simp add: after_batch_Cons unseen_settled_mono)
  next
    case False
    with Cons.prems have "m \<in> set ms" by simp
    from Cons.IH [OF this] show ?thesis by (simp add: after_batch_Cons)
  qed
qed

lemma after_metric_settled: "unseen_readings s m = [] \<Longrightarrow> after_metric m s = s"
  by (simp add: after_metric_eq)

lemma batch_settled:
  "\<forall>m\<in>set ms. unseen_readings s m = [] \<Longrightarrow> batch_forwarded s ms = [] \<and> after_batch ms s = s"
  by (induction ms)
    (simp_all add: batch_forwarded_Nil batch_forwarded_Cons after_batch_Nil after_batch_Cons
      after_metric_settled)

lemma resubmission_forwards_nothing:
  "batch_forwarded (after_batch ms s) ms = [] \<and> after_batch ms (after_batch ms s) = after_batch ms s"
  by (rule batch_settled) (simp add: settled_after_batch)

lemma batch_forwarded_above_mark:
  "g \<in> set (batch_forwarded s ms) \<Longrightarrow> hwm s (wireType g) <s epochSeconds g"
proof (induction ms arbitrary: s)
  case Nil
  then show ?case by (simp add: batch_forwarded_Nil)
next
  case (Cons m ms)
  from Cons.prems consider "g \<in> set (unseen_readings s m)"
    | "g \<in> set (batch_forwarded (after_metric m s) ms)"
    by (auto simp: batch_forwarded_Cons)
  then show ?case
  proof cases
    case 1
    then show ?thesis using unseen_above_mark [OF 1] wireType_unseen [OF 1] by simp
  next
    case 2
    from Cons.IH [OF 2] hwm_after_metric_mono [of s "wireType g" m]
    show ?thesis by (simp add: word_sless_alt word_sle_eq)
  qed
qed

lemma never_forwarded_twice:
  assumes "f \<in> set (batch_forwarded s ms)"
    and "g \<in> set (batch_forwarded (after_batch ms s) ms')"
    and "wireType f = wireType g"
  shows "epochSeconds f <s epochSeconds g"
  using forwarded_le_mark_after [OF assms(1)] batch_forwarded_above_mark [OF assms(2)] assms(3)
  by (simp add: word_sless_alt word_sle_eq)

subsection \<open>Registry entries the proofs look up\<close>

lemma registry_sleep: "metricRegistry ''sleep'' = None"
  by (simp add: metricRegistry_def metricRegistry_entries_def)

lemma registry_motion: "metricRegistry ''motion'' = None"
  by (simp add: metricRegistry_def metricRegistry_entries_def)

lemma registry_steps:
  "metricRegistry ''steps'' = Some (timeseries_cfg ''total'' ''STEPS'' [] ''ultrahuman_steps_total'')"
  by (simp add: metricRegistry_def metricRegistry_entries_def)

lemma registry_recovery:
  "metricRegistry ''recovery'' = Some (simple_cfg ''RECOVERY'' [] False ''ultrahuman_recovery'')"
  by (simp add: metricRegistry_def metricRegistry_entries_def)

lemma registry_hr:
  "metricRegistry ''hr'' =
     Some (timeseries_cfg ''last'' ''HEART RATE'' ''BPM'' ''ultrahuman_heart_rate_bpm'')"
  by (simp add: metricRegistry_def metricRegistry_entries_def)

lemma simple_not_special:
  assumes "metricRegistry ty = Some config" and "MetricType config = ''simple''"
  shows "ty \<noteq> ''sleep'' \<and> ty \<noteq> ''motion'' \<and> ty \<noteq> ''steps''"
  using assms by (auto simp: registry_sleep registry_motion registry_steps timeseries_cfg_def)

section \<open>The claims\<close>

subsection \<open>Rendering\<close>

text \<open>
  C7. A composite-sleep envelope whose decoded record has neither a score nor a
  total-sleep value is suppressed by the renderer: displayMetric prints nothing for it,
  neither the section header nor a field line, whatever its other fields hold.
\<close>

theorem displayMetric_suppresses_empty_sleep:
  assumes "Type m = ''sleep''"
    and "Unmarshal_SleepMetric (Object m) = Some v"
    and "Score v = None" and "TotalSleep v = None"
  shows "displayMetric m = []"
  using assms by (simp add: displayMetric_def)

text \<open>
  A sleep record that carries only an efficiency prints nothing; with a score it prints
  the header, the score and the efficiency.
\<close>

theorem displayMetric_suppresses_empty_sleep_witness:
  "Type (example_sleep None None (Some 90)) = ''sleep'' \<and>
   Unmarshal_SleepMetric (Object (example_sleep None None (Some 90))) =
     Some \<lparr>SleepMetric.DayStartTimestamp = 86400, Score = None, TotalSleep = None,
           Efficiency = Some 90, TimeInBed = None, DeepSleep = None, LightSleep = None,
           RemSleep = None\<rparr> \<and>
   displayMetric (example_sleep None None (Some 90)) = [] \<and>
   displayMetric (example_sleep (Some 81) None (Some 90)) =
     [Sprintf ''\<newline>  %s\<newline>'' [ArgString (Lit ''SLEEP'')],
      Sprintf ''      Score: %.0f\<newline>'' [ArgFloat 81],
      Sprintf ''      Efficiency: %.0f%%\<newline>'' [ArgFloat 90]]"
proof -
  have t: "Type (example_sleep None None (Some 90)) = ''sleep''"
    by (simp add: example_sleep_def)
  have u: "Unmarshal_SleepMetric (Object (example_sleep None None (Some 90))) =
     Some \<lparr>SleepMetric.DayStartTimestamp = 86400, Score = None, TotalSleep = None,
           Efficiency = Some 90, TimeInBed = None, DeepSleep = None, LightSleep = None,
           RemSleep = None\<rparr>"
    by (simp add: example_sleep_def)
  have "displayMetric (example_sleep None None (Some 90)) = []"
    by (rule displayMetric_suppresses_empty_sleep [OF t u]) simp_all
  moreover have "displayMetric (example_sleep (Some 81) None (Some 90)) =
     [Sprintf ''\<newline>  %s\<newline>'' [ArgString (Lit ''SLEEP'')],
      Sprintf ''      Score: %.0f\<newline>'' [ArgFloat 81],
      Sprintf ''      Efficiency: %.0f%%\<newline>'' [ArgFloat 90]]"
    by (simp add: displayMetric_def example_sleep_def printSection_def)
  ultimately show ?thesis using t u by simp
qed

text \<open>
  C5, as the code has it. For an envelope of a scalar (simple) metric, a payload that
  cannot be decoded and a payload whose value is null (decoded without error, the value
  pointer nil) have one and the same rendering: getMetricValue returns the literal
  \<^verbatim>\<open>null\<close> and displayMetric prints nothing. Neither is rendered as a formatted number,
  so never as zero, and neither is forwarded: the loop body of pushMetrics leaves the
  batch and the state as they are for every scalar envelope.
\<close>

theorem scalar_without_value_is_no_data:
  assumes "metricRegistry (Type m) = Some config" and "MetricType config = ''simple''"
    and "Unmarshal_SimpleMetric (Object m) = None \<or>
         (\<exists>v. Unmarshal_SimpleMetric (Object m) = Some v \<and> SimpleMetric.Value v = None)"
  shows "getMetricValue (m # metrics) (Type m) = Lit ''null'' \<and>
         displayMetric m = [] \<and>
         push_metric m acc = acc"
proof -
  from simple_not_special [OF assms(1,2)]
  have ns: "Type m \<noteq> ''sleep''" "Type m \<noteq> ''motion''" "Type m \<noteq> ''steps''" by simp_all
  have "getMetricValue (m # metrics) (Type m) = Lit ''null''"
    using assms ns by auto
  moreover have "displayMetric m = []"
    using assms ns by (auto simp: displayMetric_def)
  moreover have "push_metric m acc = acc"
    using assms(1,2) by (cases acc) (simp add: push_metric_def)
  ultimately show ?thesis by simp
qed

text \<open>
  The null-valued recovery score renders as \<^verbatim>\<open>null\<close>, prints nothing and is not
  forwarded; a recovery score of zero is the one that renders as a formatted zero.
\<close>

theorem scalar_without_value_is_no_data_witness:
  "getMetricValue [example_simple ''recovery'' None] ''recovery'' = Lit ''null'' \<and>
   displayMetric (example_simple ''recovery'' None) = [] \<and>
   push_metric (example_simple ''recovery'' None) ([], initial_state) = ([], initial_state) \<and>
   getMetricValue [example_simple ''recovery'' (Some 0)] ''recovery'' = Sprintf ''%.0f'' [ArgFloat 0]"
proof -
  have r: "metricRegistry (Type (example_simple ''recovery'' None)) =
             Some (simple_cfg ''RECOVERY'' [] False ''ultrahuman_recovery'')"
    by (simp add: example_simple_def registry_recovery)
  have k: "MetricType (simple_cfg ''RECOVERY'' [] False ''ultrahuman_recovery'') = ''simple''"
    by (simp add: simple_cfg_def)
  have n: "Unmarshal_SimpleMetric (Object (example_simple ''recovery'' None)) = None \<or>
         (\<exists>v. Unmarshal_SimpleMetric (Object (example_simple ''recovery'' None)) = Some v \<and>
              SimpleMetric.Value v = None)"
    by (simp add: example_simple_def)
  have z: "getMetricValue [example_simple ''recovery'' (Some 0)] ''recovery'' =
             Sprintf ''%.0f'' [ArgFloat 0]"
    by (simp add: example_simple_def registry_recovery simple_cfg_def degC_def)
  have t: "Type (example_simple ''recovery'' None) = ''recovery''"
    by (simp add: example_simple_def)
  from scalar_without_value_is_no_data [OF r k n, of "[]" "([], initial_state)"] z t
  show ?thesis by simp
qed

text \<open>
  C5 as the specification states it asks for two distinguishable renderings. The
  payload \<^verbatim>\<open>{"value":null,"title":"T"}\<close> of a recovery envelope decodes (the second to
  last conjunct) and the payload \<^verbatim>\<open>"oops"\<close> does not (the last), yet getMetricValue
  answers \<^verbatim>\<open>null\<close> for both and displayMetric prints nothing for both.
\<close>

theorem null_scalar_rendered_as_decode_failure:
  "getMetricValue [example_simple ''recovery'' None] ''recovery'' = Lit ''null'' \<and>
   getMetricValue [example_malformed ''recovery''] ''recovery'' = Lit ''null'' \<and>
   displayMetric (example_simple ''recovery'' None) = [] \<and>
   displayMetric (example_malformed ''recovery'') = [] \<and>
   Unmarshal_SimpleMetric (Object (example_simple ''recovery'' None)) \<noteq> None \<and>
   Unmarshal_SimpleMetric (Object (example_malformed ''recovery'')) = None"
  by (simp add: displayMetric_def example_simple_def example_malformed_def registry_recovery
      simple_cfg_def)

subsection \<open>What is forwarded at all\<close>

lemma push_metric_not_forwardable: "\<not> forwardable m \<Longrightarrow> push_metric m acc = acc"
  by (cases acc) (auto simp: forwardable_def push_metric_def split: option.splits)

lemma push_loop_filter_forwardable:
  "push_loop metrics acc = push_loop (filter forwardable metrics) acc"
  by (induction metrics arbitrary: acc) (simp_all add: push_metric_not_forwardable)

text \<open>
  C4. pushMetrics forwards samples only for envelopes whose wire type has a registry
  entry of kind time-series with a non-empty Prometheus name (\<open>forwardable\<close>): the
  call gives the same error, the same calls of Write and the same state as the call
  with all other envelopes removed from the batch, and the loop body does nothing for an
  envelope that is not forwardable. When the batch the loop has built is empty,
  pushMetrics returns no error and the remote-write client is not called.
\<close>

theorem pushMetrics_forwards_only_forwardable:
  "pushMetrics metrics rwClient s = pushMetrics (filter forwardable metrics) rwClient s \<and>
   (\<not> forwardable m \<longrightarrow> push_metric m acc = acc) \<and>
   (fst (push_loop metrics ([], s)) = [] \<longrightarrow>
      fst (pushMetrics metrics rwClient s) = None \<and>
      fst (snd (pushMetrics metrics rwClient s)) = [])"
proof -
  have "pushMetrics metrics rwClient s = pushMetrics (filter forwardable metrics) rwClient s"
    unfolding pushMetrics_def by (subst push_loop_filter_forwardable) (rule refl)
  moreover have "fst (pushMetrics metrics rwClient s) = None \<and>
      fst (snd (pushMetrics metrics rwClient s)) = []"
    if "fst (push_loop metrics ([], s)) = []"
    using that by (cases rwClient) (auto simp: pushMetrics_def split: prod.splits)
  ultimately show ?thesis by (simp add: push_metric_not_forwardable)
qed

text \<open>
  A recovery score and a composite sleep record next to heart-rate readings: only the
  heart rate counts; without it the batch is empty and the unreachable endpoint is never
  contacted.
\<close>

theorem pushMetrics_forwards_only_forwardable_witness:
  "\<not> forwardable (example_simple ''recovery'' (Some 61)) \<and>
   \<not> forwardable (example_sleep (Some 81) (Some 420) None) \<and>
   forwardable (example_timeseries ''hr'' 86400 [(70, 1000), (72, 1005)] 0) \<and>
   pushMetrics [example_simple ''recovery'' (Some 61), example_sleep (Some 81) (Some 420) None,
                example_timeseries ''hr'' 86400 [(70, 1000), (72, 1005)] 0]
     (Some accepting_client) initial_state =
   pushMetrics [example_timeseries ''hr'' 86400 [(70, 1000), (72, 1005)] 0]
     (Some accepting_client) initial_state \<and>
   push_metric (example_simple ''recovery'' (Some 61)) ([], initial_state) = ([], initial_state) \<and>
   fst (push_loop [example_simple ''recovery'' (Some 61), example_sleep (Some 81) (Some 420) None]
          ([], initial_state)) = [] \<and>
   pushMetrics [example_simple ''recovery'' (Some 61), example_sleep (Some 81) (Some 420) None]
     (Some unreachable_client) initial_state = (None, [], initial_state)"
proof -
  let ?r = "example_simple ''recovery'' (Some 61)"
  let ?sl = "example_sleep (Some 81) (Some 420) None"
  let ?hr = "example_timeseries ''hr'' 86400 [(70, 1000), (72, 1005)] 0"
  have f: "\<not> forwardable ?r" "\<not> forwardable ?sl" "forwardable ?hr"
    by (simp_all add: forwardable_def example_simple_def example_sleep_def
        example_timeseries_def registry_recovery registry_sleep registry_hr simple_cfg_def
        timeseries_cfg_def)
  have e: "fst (push_loop [?r, ?sl] ([], initial_state)) = []"
    by (simp add: push_metric_def example_simple_def example_sleep_def registry_recovery
        registry_sleep simple_cfg_def)
  have st: "snd (snd (pushMetrics [?r, ?sl] (Some unreachable_client) initial_state)) = initial_state"
    by (simp add: pushMetrics_def push_metric_def example_simple_def example_sleep_def
        registry_recovery registry_sleep simple_cfg_def)
  have flt: "filter forwardable [?r, ?sl, ?hr] = [?hr]"
    using f by simp
  have a: "pushMetrics [?r, ?sl, ?hr] (Some accepting_client) initial_state =
           pushMetrics [?hr] (Some accepting_client) initial_state"
    using pushMetrics_forwards_only_forwardable
            [of "[?r, ?sl, ?hr]" "Some accepting_client" initial_state ?r "([], initial_state)",
             THEN conjunct1]
    unfolding flt .
  have b: "push_metric ?r ([], initial_state) = ([], initial_state)"
    using pushMetrics_forwards_only_forwardable
            [of "[?r, ?sl]" "Some unreachable_client" initial_state ?r "([], initial_state)",
             THEN conjunct2, THEN conjunct1] f(1)
    by (rule mp)
  have "fst (pushMetrics [?r, ?sl] (Some unreachable_client) initial_state) = None \<and>
        fst (snd (pushMetrics [?r, ?sl] (Some unreachable_client) initial_state)) = []"
    using pushMetrics_forwards_only_forwardable
            [of "[?r, ?sl]" "Some unreachable_client" initial_state ?r "([], initial_state)",
             THEN conjunct2, THEN conjunct2] e
    by (rule mp)
  with st have c: "pushMetrics [?r, ?sl] (Some unreachable_client) initial_state =
                   (None, [], initial_state)"
    by (simp add: prod_eq_iff)
  from f a b e c show ?thesis by simp
qed

subsection \<open>The cumulative steps counter\<close>

lemma push_metric_steps:
  assumes "Type m = ''steps''" and "Unmarshal_TimeSeriesMetric (Object m) = Some v"
  shows "push_metric m (acc, s) =
           (if hwm s ''steps'' <s TimeSeriesMetric.DayStartTimestamp v
            then (acc @ [buildTimeSeries ''ultrahuman_steps_total'' (Total v)
                           (TimeSeriesMetric.DayStartTimestamp v * 1000)],
                  updateGlobalTimestamp (TimeSeriesMetric.DayStartTimestamp v)
                    (s\<lparr>lastPushedTimestamp :=
                         (lastPushedTimestamp s)(''steps'' \<mapsto> TimeSeriesMetric.DayStartTimestamp v)\<rparr>))
            else (acc, s))"
  using assms by (simp add: push_metric_def registry_steps timeseries_cfg_def hwm_def Let_def)

lemma hwm_after_steps:
  assumes "Type m = ''steps''" and "Unmarshal_TimeSeriesMetric (Object m) = Some v"
  shows "hwm (after_metric m s) ''steps'' =
           signed.max (hwm s ''steps'') (TimeSeriesMetric.DayStartTimestamp v)"
proof (cases "hwm s ''steps'' <s TimeSeriesMetric.DayStartTimestamp v")
  case True
  then have "signed.max (hwm s ''steps'') (TimeSeriesMetric.DayStartTimestamp v) =
               TimeSeriesMetric.DayStartTimestamp v"
    by (simp add: signed.max.absorb4)
  moreover have "hwm (after_metric m s) ''steps'' = TimeSeriesMetric.DayStartTimestamp v"
    using True
    by (simp add: after_metric_def push_metric_steps [OF assms] hwm_updateGlobalTimestamp)
       (simp add: hwm_def lookup0_def)
  ultimately show ?thesis by simp
next
  case False
  then have "signed.max (hwm s ''steps'') (TimeSeriesMetric.DayStartTimestamp v) = hwm s ''steps''"
    by (simp add: signed.max.absorb1 signed.not_less)
  moreover have "hwm (after_metric m s) ''steps'' = hwm s ''steps''"
    using False by (simp add: after_metric_def push_metric_steps [OF assms])
  ultimately show ?thesis by simp
qed

text \<open>
  C2. For the cumulative steps metric the loop body of pushMetrics looks at the
  day-start of the record, not at its readings: when the day-start is strictly greater
  than the mark stored for steps it appends exactly one time series, labelled
  \<^verbatim>\<open>__name__ = ultrahuman_steps_total\<close> and holding exactly one sample whose value is the
  day's total and whose timestamp is the day-start times 1000, sets the mark to the day-start and updates the global
  timestamp; otherwise it changes nothing. A call of pushMetrics with this one envelope
  hands Write that one sample, or makes no call. After the envelope, a steps envelope
  with the same day-start (whatever its total) emits nothing, and one with a later
  day-start emits exactly one sample.
\<close>

theorem steps_forwarded_once_per_day_start:
  assumes "Type m = ''steps''" and "Unmarshal_TimeSeriesMetric (Object m) = Some v"
  shows "push_metric m (acc, s) =
           (if hwm s ''steps'' <s TimeSeriesMetric.DayStartTimestamp v
            then (acc @ [\<lparr>Labels = [\<lparr>prompb_Label.Name = ''__name__'',
                                      prompb_Label.Value = ''ultrahuman_steps_total''\<rparr>],
                          Samples = [\<lparr>prompb_Sample.Value = Total v,
                                       prompb_Sample.Timestamp = TimeSeriesMetric.DayStartTimestamp v * 1000\<rparr>]\<rparr>],
                  updateGlobalTimestamp (TimeSeriesMetric.DayStartTimestamp v)
                    (s\<lparr>lastPushedTimestamp :=
                         (lastPushedTimestamp s)(''steps'' \<mapsto> TimeSeriesMetric.DayStartTimestamp v)\<rparr>))
            else (acc, s)) \<and>
         fst (snd (pushMetrics [m] (Some c) s)) =
           (if hwm s ''steps'' <s TimeSeriesMetric.DayStartTimestamp v
            then [[\<lparr>Labels = [\<lparr>prompb_Label.Name = ''__name__'',
                                prompb_Label.Value = ''ultrahuman_steps_total''\<rparr>],
                    Samples = [\<lparr>prompb_Sample.Value = Total v,
                                 prompb_Sample.Timestamp = TimeSeriesMetric.DayStartTimestamp v * 1000\<rparr>]\<rparr>]]
            else []) \<and>
         (hwm s ''steps'' <s TimeSeriesMetric.DayStartTimestamp v \<longrightarrow>
            hwm (after_metric m s) ''steps'' = TimeSeriesMetric.DayStartTimestamp v) \<and>
         (Type m' = ''steps'' \<and> Unmarshal_TimeSeriesMetric (Object m') = Some v' \<and>
          TimeSeriesMetric.DayStartTimestamp v' = TimeSeriesMetric.DayStartTimestamp v \<longrightarrow>
            push_metric m' (acc', after_metric m s) = (acc', after_metric m s)) \<and>
         (Type m' = ''steps'' \<and> Unmarshal_TimeSeriesMetric (Object m') = Some v' \<and>
          hwm s ''steps'' \<le>s TimeSeriesMetric.DayStartTimestamp v \<and>
          TimeSeriesMetric.DayStartTimestamp v <s TimeSeriesMetric.DayStartTimestamp v' \<longrightarrow>
            fst (push_metric m' (acc', after_metric m s)) =
              acc' @ [\<lparr>Labels = [\<lparr>prompb_Label.Name = ''__name__'',
                                   prompb_Label.Value = ''ultrahuman_steps_total''\<rparr>],
                       Samples = [\<lparr>prompb_Sample.Value = Total v',
                                    prompb_Sample.Timestamp = TimeSeriesMetric.DayStartTimestamp v' * 1000\<rparr>]\<rparr>])"
proof -
  note step = push_metric_steps [OF assms, unfolded buildTimeSeries_def]
  have one: "fst (snd (pushMetrics [m] (Some c) s)) =
           (if hwm s ''steps'' <s TimeSeriesMetric.DayStartTimestamp v
            then [[\<lparr>Labels = [\<lparr>prompb_Label.Name = ''__name__'',
                                prompb_Label.Value = ''ultrahuman_steps_total''\<rparr>],
                    Samples = [\<lparr>prompb_Sample.Value = Total v,
                                 prompb_Sample.Timestamp = TimeSeriesMetric.DayStartTimestamp v * 1000\<rparr>]\<rparr>]]
            else [])"
    by (simp add: pushMetrics_def step)
  have mark: "hwm (after_metric m s) ''steps'' =
                signed.max (hwm s ''steps'') (TimeSeriesMetric.DayStartTimestamp v)"
    by (rule hwm_after_steps [OF assms])
  have adv: "hwm (after_metric m s) ''steps'' = TimeSeriesMetric.DayStartTimestamp v"
    if "hwm s ''steps'' <s TimeSeriesMetric.DayStartTimestamp v"
    using that by (simp add: mark signed.max_def word_sless_alt word_sle_eq)
  have same: "push_metric m' (acc', after_metric m s) = (acc', after_metric m s)"
    if "Type m' = ''steps''" "Unmarshal_TimeSeriesMetric (Object m') = Some v'"
       "TimeSeriesMetric.DayStartTimestamp v' = TimeSeriesMetric.DayStartTimestamp v"
  proof -
    have "\<not> hwm (after_metric m s) ''steps'' <s TimeSeriesMetric.DayStartTimestamp v'"
      using that(3) by (simp add: mark signed.max_def word_sless_alt word_sle_eq)
    then show ?thesis by (simp add: push_metric_steps [OF that(1,2)])
  qed
  have new: "fst (push_metric m' (acc', after_metric m s)) =
              acc' @ [\<lparr>Labels = [\<lparr>prompb_Label.Name = ''__name__'',
                                   prompb_Label.Value = ''ultrahuman_steps_total''\<rparr>],
                       Samples = [\<lparr>prompb_Sample.Value = Total v',
                                    prompb_Sample.Timestamp = TimeSeriesMetric.DayStartTimestamp v' * 1000\<rparr>]\<rparr>]"
    if "Type m' = ''steps''" "Unmarshal_TimeSeriesMetric (Object m') = Some v'"
       "hwm s ''steps'' \<le>s TimeSeriesMetric.DayStartTimestamp v"
       "TimeSeriesMetric.DayStartTimestamp v <s TimeSeriesMetric.DayStartTimestamp v'"
  proof -
    have "hwm (after_metric m s) ''steps'' <s TimeSeriesMetric.DayStartTimestamp v'"
      using that(3,4) by (simp add: mark signed.max_def word_sless_alt word_sle_eq)
    then show ?thesis by (simp add: push_metric_steps [OF that(1,2)] buildTimeSeries_def)
  qed
  from step one adv same new show ?thesis by blast
qed

text \<open>
  The day starting at 86400 with a total of 500 steps is forwarded as one sample at
  86400000 ms; the same day with a total of 620 is not forwarded again; the day
  starting at 172800 is forwarded as one new sample.
\<close>

theorem steps_forwarded_once_per_day_start_witness:
  "push_metric (example_timeseries ''steps'' 86400 [(120, 90000), (500, 93600)] 500)
     ([], initial_state) =
     ([\<lparr>Labels = [\<lparr>prompb_Label.Name = ''__name__'',
                    prompb_Label.Value = ''ultrahuman_steps_total''\<rparr>],
        Samples = [\<lparr>prompb_Sample.Value = 500,
                     prompb_Sample.Timestamp = 86400000\<rparr>]\<rparr>],
      \<lparr>lastPushedTimestamp = [''steps'' \<mapsto> 86400], globalLatestTimestamp = 86400\<rparr>) \<and>
   fst (snd (pushMetrics [example_timeseries ''steps'' 86400 [(120, 90000), (500, 93600)] 500]
               (Some accepting_client) initial_state)) =
     [[\<lparr>Labels = [\<lparr>prompb_Label.Name = ''__name__'',
                    prompb_Label.Value = ''ultrahuman_steps_total''\<rparr>],
        Samples = [\<lparr>prompb_Sample.Value = 500,
                     prompb_Sample.Timestamp = 86400000\<rparr>]\<rparr>]] \<and>
   hwm (after_metric (example_timeseries ''steps'' 86400 [(120, 90000), (500, 93600)] 500)
          initial_state) ''steps'' = 86400 \<and>
   push_metric (example_timeseries ''steps'' 86400 [(620, 97200)] 620)
     ([], after_metric (example_timeseries ''steps'' 86400 [(120, 90000), (500, 93600)] 500)
            initial_state) =
     ([], after_metric (example_timeseries ''steps'' 86400 [(120, 90000), (500, 93600)] 500)
            initial_state) \<and>
   fst (push_metric (example_timeseries ''steps'' 172800 [(30, 173000)] 30)
          ([], after_metric (example_timeseries ''steps'' 86400 [(120, 90000), (500, 93600)] 500)
                 initial_state)) =
     [\<lparr>Labels = [\<lparr>prompb_Label.Name = ''__name__'',
                   prompb_Label.Value = ''ultrahuman_steps_total''\<rparr>],
       Samples = [\<lparr>prompb_Sample.Value = 30,
                    prompb_Sample.Timestamp = 172800000\<rparr>]\<rparr>]"
proof -
  let ?m1 = "example_timeseries ''steps'' 86400 [(120, 90000), (500, 93600)] 500"
  let ?m2 = "example_timeseries ''steps'' 86400 [(620, 97200)] 620"
  let ?m3 = "example_timeseries ''steps'' 172800 [(30, 173000)] 30"
  obtain v1 where u1: "Unmarshal_TimeSeriesMetric (Object ?m1) = Some v1"
    and d1: "TimeSeriesMetric.DayStartTimestamp v1 = 86400" and t1: "Total v1 = 500"
    by (simp add: example_timeseries_def)
  obtain v2 where u2: "Unmarshal_TimeSeriesMetric (Object ?m2) = Some v2"
    and d2: "TimeSeriesMetric.DayStartTimestamp v2 = 86400"
    by (simp add: example_timeseries_def)
  obtain v3 where u3: "Unmarshal_TimeSeriesMetric (Object ?m3) = Some v3"
    and d3: "TimeSeriesMetric.DayStartTimestamp v3 = 172800" and t3: "Total v3 = 30"
    by (simp add: example_timeseries_def)
  have ty: "Type ?m1 = ''steps''" "Type ?m2 = ''steps''" "Type ?m3 = ''steps''"
    by (simp_all add: example_timeseries_def)
  have h0: "hwm initial_state ''steps'' = 0"
    by (simp add: hwm_def lookup0_def initial_state_def)
  have lt: "(0::int64) <s 86400" "(0::int64) \<le>s 86400" "(86400::int64) <s 172800"
    by (simp_all add: word_sless_alt word_sle_eq)
  have ms: "(86400::int64) * 1000 = 86400000" "(172800::int64) * 1000 = 172800000"
    by simp_all
  note a = steps_forwarded_once_per_day_start
             [OF ty(1) u1, where s = initial_state and acc = "[]" and c = accepting_client
                and m' = ?m2 and v' = v2 and acc' = "[]"]
  note b = steps_forwarded_once_per_day_start
             [OF ty(1) u1, where s = initial_state and acc = "[]" and c = accepting_client
                and m' = ?m3 and v' = v3 and acc' = "[]"]
  have c1: "push_metric ?m1 ([], initial_state) =
     ([\<lparr>Labels = [\<lparr>prompb_Label.Name = ''__name__'',
                    prompb_Label.Value = ''ultrahuman_steps_total''\<rparr>],
        Samples = [\<lparr>prompb_Sample.Value = 500,
                     prompb_Sample.Timestamp = 86400000\<rparr>]\<rparr>],
      \<lparr>lastPushedTimestamp = [''steps'' \<mapsto> 86400], globalLatestTimestamp = 86400\<rparr>)"
    using a [THEN conjunct1] lt
    by (simp add: h0 d1 t1 ms)
       (simp add: updateGlobalTimestamp_def initial_state_def word_sless_alt)
  have c2: "fst (snd (pushMetrics [?m1] (Some accepting_client) initial_state)) =
     [[\<lparr>Labels = [\<lparr>prompb_Label.Name = ''__name__'',
                    prompb_Label.Value = ''ultrahuman_steps_total''\<rparr>],
        Samples = [\<lparr>prompb_Sample.Value = 500,
                     prompb_Sample.Timestamp = 86400000\<rparr>]\<rparr>]]"
    using a [THEN conjunct2, THEN conjunct1] lt by (simp add: h0 d1 t1 ms)
  have c3: "hwm (after_metric ?m1 initial_state) ''steps'' = 86400"
    using a [THEN conjunct2, THEN conjunct2, THEN conjunct1] lt by (simp add: h0 d1)
  have c4: "push_metric ?m2 ([], after_metric ?m1 initial_state) =
              ([], after_metric ?m1 initial_state)"
    using a [THEN conjunct2, THEN conjunct2, THEN conjunct2, THEN conjunct1] ty(2) u2
    by (simp add: d1 d2)
  have c5: "fst (push_metric ?m3 ([], after_metric ?m1 initial_state)) =
              [\<lparr>Labels = [\<lparr>prompb_Label.Name = ''__name__'',
                            prompb_Label.Value = ''ultrahuman_steps_total''\<rparr>],
                Samples = [\<lparr>prompb_Sample.Value = 30,
                             prompb_Sample.Timestamp = 172800000\<rparr>]\<rparr>]"
    using b [THEN conjunct2, THEN conjunct2, THEN conjunct2, THEN conjunct2] ty(3) u3 lt
    by (simp add: h0 d1 d3 t3 ms)
  from c1 c2 c3 c4 c5 show ?thesis by simp
qed

subsection \<open>Per-reading metrics\<close>

lemma unseen_readings_timeseries:
  assumes "metricRegistry (Type m) = Some config" and "PrometheusName config \<noteq> []"
    and "MetricType config = ''timeseries''" and "Type m \<noteq> ''steps''"
    and "Unmarshal_TimeSeriesMetric (Object m) = Some v"
  shows "unseen_readings s m =
           map (\<lambda>r. \<lparr>wireType = Type m, outputName = PrometheusName config,
                      readingValue = TimeValue.Value r, epochSeconds = TimeValue.Timestamp r\<rparr>)
             (filter (\<lambda>r. hwm s (Type m) <s TimeValue.Timestamp r) (Values v))"
  using assms by (simp add: unseen_readings_def)

lemma push_metric_timeseries:
  assumes "metricRegistry (Type m) = Some config" and "PrometheusName config \<noteq> []"
    and "MetricType config = ''timeseries''" and "Type m \<noteq> ''steps''"
    and "Unmarshal_TimeSeriesMetric (Object m) = Some v"
  shows "fst (push_metric m (acc, s)) =
           acc @ map (\<lambda>r. buildTimeSeries (PrometheusName config) (TimeValue.Value r)
                             (TimeValue.Timestamp r * 1000))
                   (filter (\<lambda>r. hwm s (Type m) <s TimeValue.Timestamp r) (Values v))"
  by (simp add: push_metric_split unseen_readings_timeseries [OF assms] wire_sample_def comp_def)

lemma hwm_after_metric:
  "hwm (after_metric m s) ty =
     signed.Max (insert (hwm s ty)
       (epochSeconds ` {f \<in> set (unseen_readings s m). wireType f = ty}))"
  by (simp add: hwm_after_metric_foldl foldl_smax_Max)

lemma hwm_after_batch_set:
  "hwm (after_batch ms s) ty =
     signed.Max (insert (hwm s ty)
       (epochSeconds ` {f \<in> set (batch_forwarded s ms). wireType f = ty}))"
  by (simp add: hwm_after_batch)

lemma batch_forwarded_append:
  "batch_forwarded s (xs @ ys) = batch_forwarded s xs @ batch_forwarded (after_batch xs s) ys"
  by (induction xs arbitrary: s)
    (simp_all add: batch_forwarded_Nil batch_forwarded_Cons after_batch_Nil after_batch_Cons)

lemma push_loop_fst: "fst (push_loop ms ([], s)) = map wire_sample (batch_forwarded s ms)"
  by (simp add: push_loop_eq)

lemma push_loop_at_position:
  assumes "i < length metrics"
  shows "fst (push_loop metrics ([], s)) =
           fst (push_loop (take i metrics) ([], s)) @
           map wire_sample (unseen_readings (after_batch (take i metrics) s) (metrics ! i)) @
           fst (push_loop (drop (Suc i) metrics) ([], after_batch (take (Suc i) metrics) s))"
proof -
  let ?pre = "take i metrics" and ?m = "metrics ! i" and ?post = "drop (Suc i) metrics"
  have split: "metrics = ?pre @ ?m # ?post"
    using assms by (simp add: id_take_nth_drop)
  have suc: "take (Suc i) metrics = ?pre @ [?m]"
    using assms by (simp add: take_Suc_conv_app_nth)
  have "batch_forwarded s metrics = batch_forwarded s (?pre @ ?m # ?post)"
    using split by simp
  also have "\<dots> = batch_forwarded s ?pre @ unseen_readings (after_batch ?pre s) ?m @
                    batch_forwarded (after_metric ?m (after_batch ?pre s)) ?post"
    by (simp only: batch_forwarded_append batch_forwarded_Cons)
  also have "after_metric ?m (after_batch ?pre s) = after_batch (take (Suc i) metrics) s"
    by (simp add: suc after_batch_append after_batch_Cons after_batch_Nil)
  finally show ?thesis by (simp add: push_loop_fst)
qed

text \<open>
  C9, as the code has it. For an envelope of a per-reading metric (a forwardable wire
  type other than steps) the loop body filters the readings against the mark as it
  stands when the envelope is taken up, not against the mark as it is raised while the
  envelope is processed: the time series appended are those of the readings of the
  envelope whose timestamp is strictly greater than that mark, in order and with
  repetitions, each with one sample holding the reading's value and its timestamp times
  1000. So readings with equal timestamps inside the same envelope are all forwarded,
  and the order of the timestamps does not matter. Within a batch the envelope at
  position \<open>i\<close> is judged by the mark that the envelopes before it have left: the batch
  is the samples of the earlier envelopes, then the readings of this envelope above
  that mark, then the samples of the later envelopes. After the envelope the mark of
  the wire type is the maximum of the earlier mark and the forwarded timestamps, and
  after a whole batch the mark of every wire type is the maximum of its earlier mark
  and the timestamps the batch has forwarded for it.
\<close>

theorem readings_filtered_against_mark_read_once:
  assumes "metricRegistry (Type m) = Some config" and "PrometheusName config \<noteq> []"
    and "MetricType config = ''timeseries''" and "Type m \<noteq> ''steps''"
    and "Unmarshal_TimeSeriesMetric (Object m) = Some v"
  shows "fst (push_metric m (acc, s)) =
           acc @ map (\<lambda>r. \<lparr>Labels = [\<lparr>prompb_Label.Name = ''__name__'',
                                        prompb_Label.Value = PrometheusName config\<rparr>],
                            Samples = [\<lparr>prompb_Sample.Value = TimeValue.Value r,
                                         prompb_Sample.Timestamp = TimeValue.Timestamp r * 1000\<rparr>]\<rparr>)
                   (filter (\<lambda>r. hwm s (Type m) <s TimeValue.Timestamp r) (Values v)) \<and>
         hwm (after_metric m s) (Type m) =
           signed.Max (insert (hwm s (Type m))
             (TimeValue.Timestamp ` {r \<in> set (Values v). hwm s (Type m) <s TimeValue.Timestamp r})) \<and>
         (i < length metrics \<and> metrics ! i = m \<longrightarrow>
            fst (push_loop metrics ([], s')) =
              fst (push_loop (take i metrics) ([], s')) @
              map (\<lambda>r. \<lparr>Labels = [\<lparr>prompb_Label.Name = ''__name__'',
                                        prompb_Label.Value = PrometheusName config\<rparr>],
                            Samples = [\<lparr>prompb_Sample.Value = TimeValue.Value r,
                                         prompb_Sample.Timestamp = TimeValue.Timestamp r * 1000\<rparr>]\<rparr>)
                (filter (\<lambda>r. hwm (after_batch (take i metrics) s') (Type m) <s TimeValue.Timestamp r)
                   (Values v)) @
              fst (push_loop (drop (Suc i) metrics) ([], after_batch (take (Suc i) metrics) s'))) \<and>
         fst (push_loop metrics ([], s')) = map wire_sample (batch_forwarded s' metrics) \<and>
         hwm (after_batch metrics s') ty =
           signed.Max (insert (hwm s' ty)
             (epochSeconds ` {f \<in> set (batch_forwarded s' metrics). wireType f = ty}))"
proof -
  have env: "map wire_sample (unseen_readings st m) =
           map (\<lambda>r. \<lparr>Labels = [\<lparr>prompb_Label.Name = ''__name__'',
                                        prompb_Label.Value = PrometheusName config\<rparr>],
                            Samples = [\<lparr>prompb_Sample.Value = TimeValue.Value r,
                                         prompb_Sample.Timestamp = TimeValue.Timestamp r * 1000\<rparr>]\<rparr>)
             (filter (\<lambda>r. hwm st (Type m) <s TimeValue.Timestamp r) (Values v))" for st
    by (simp add: unseen_readings_timeseries [OF assms] wire_sample_def buildTimeSeries_def
        comp_def)
  have one: "fst (push_metric m (acc, s)) =
           acc @ map (\<lambda>r. \<lparr>Labels = [\<lparr>prompb_Label.Name = ''__name__'',
                                        prompb_Label.Value = PrometheusName config\<rparr>],
                            Samples = [\<lparr>prompb_Sample.Value = TimeValue.Value r,
                                         prompb_Sample.Timestamp = TimeValue.Timestamp r * 1000\<rparr>]\<rparr>)
                   (filter (\<lambda>r. hwm s (Type m) <s TimeValue.Timestamp r) (Values v))"
    by (simp only: push_metric_split fst_conv env)
  have "epochSeconds ` {f \<in> set (unseen_readings s m). wireType f = Type m} =
        TimeValue.Timestamp ` {r \<in> set (Values v). hwm s (Type m) <s TimeValue.Timestamp r}"
    by (force simp: unseen_readings_timeseries [OF assms] image_iff)
  then have mark: "hwm (after_metric m s) (Type m) =
           signed.Max (insert (hwm s (Type m))
             (TimeValue.Timestamp ` {r \<in> set (Values v). hwm s (Type m) <s TimeValue.Timestamp r}))"
    by (simp add: hwm_after_metric)
  have pos: "fst (push_loop metrics ([], s')) =
              fst (push_loop (take i metrics) ([], s')) @
              map (\<lambda>r. \<lparr>Labels = [\<lparr>prompb_Label.Name = ''__name__'',
                                        prompb_Label.Value = PrometheusName config\<rparr>],
                            Samples = [\<lparr>prompb_Sample.Value = TimeValue.Value r,
                                         prompb_Sample.Timestamp = TimeValue.Timestamp r * 1000\<rparr>]\<rparr>)
                (filter (\<lambda>r. hwm (after_batch (take i metrics) s') (Type m) <s TimeValue.Timestamp r)
                   (Values v)) @
              fst (push_loop (drop (Suc i) metrics) ([], after_batch (take (Suc i) metrics) s'))"
    if "i < length metrics" and "metrics ! i = m"
    using push_loop_at_position [OF that(1), of s'] by (simp only: that(2) env)
  have link: "fst (push_loop metrics ([], s')) = map wire_sample (batch_forwarded s' metrics)"
    by (rule push_loop_fst)
  from one mark pos link hwm_after_batch_set [of metrics s' ty] show ?thesis by blast
qed

text \<open>
  Heart-rate readings at 1010, 1005, 1010, 990 and 1000 against a mark of 1000: the
  two readings at 1010 and the one at 1005 are forwarded, and the mark ends at 1010. A
  second heart-rate envelope of the same batch, with readings at 1010 and 1020, is
  judged by the mark 1010: its reading at 1020 is forwarded, and the mark of the batch
  ends at 1020.
\<close>

theorem readings_filtered_against_mark_read_once_witness:
  "fst (push_metric
          (example_timeseries ''hr'' 86400 [(70, 1010), (71, 1005), (72, 1010), (60, 990), (61, 1000)] 0)
          ([], \<lparr>lastPushedTimestamp = [''hr'' \<mapsto> 1000], globalLatestTimestamp = 1000\<rparr>)) =
     [\<lparr>Labels = [\<lparr>prompb_Label.Name = ''__name__'', prompb_Label.Value = ''ultrahuman_heart_rate_bpm''\<rparr>],
       Samples = [\<lparr>prompb_Sample.Value = 70, prompb_Sample.Timestamp = 1010000\<rparr>]\<rparr>,
      \<lparr>Labels = [\<lparr>prompb_Label.Name = ''__name__'', prompb_Label.Value = ''ultrahuman_heart_rate_bpm''\<rparr>],
       Samples = [\<lparr>prompb_Sample.Value = 71, prompb_Sample.Timestamp = 1005000\<rparr>]\<rparr>,
      \<lparr>Labels = [\<lparr>prompb_Label.Name = ''__name__'', prompb_Label.Value = ''ultrahuman_heart_rate_bpm''\<rparr>],
       Samples = [\<lparr>prompb_Sample.Value = 72, prompb_Sample.Timestamp = 1010000\<rparr>]\<rparr>] \<and>
   hwm (after_metric
          (example_timeseries ''hr'' 86400 [(70, 1010), (71, 1005), (72, 1010), (60, 990), (61, 1000)] 0)
          \<lparr>lastPushedTimestamp = [''hr'' \<mapsto> 1000], globalLatestTimestamp = 1000\<rparr>) ''hr'' = 1010 \<and>
   fst (push_loop
          [example_timeseries ''hr'' 86400 [(70, 1010), (71, 1005), (72, 1010), (60, 990), (61, 1000)] 0,
           example_timeseries ''hr'' 86400 [(73, 1010), (74, 1020)] 0]
          ([], \<lparr>lastPushedTimestamp = [''hr'' \<mapsto> 1000], globalLatestTimestamp = 1000\<rparr>)) =
     [\<lparr>Labels = [\<lparr>prompb_Label.Name = ''__name__'', prompb_Label.Value = ''ultrahuman_heart_rate_bpm''\<rparr>],
       Samples = [\<lparr>prompb_Sample.Value = 70, prompb_Sample.Timestamp = 1010000\<rparr>]\<rparr>,
      \<lparr>Labels = [\<lparr>prompb_Label.Name = ''__name__'', prompb_Label.Value = ''ultrahuman_heart_rate_bpm''\<rparr>],
       Samples = [\<lparr>prompb_Sample.Value = 71, prompb_Sample.Timestamp = 1005000\<rparr>]\<rparr>,
      \<lparr>Labels = [\<lparr>prompb_Label.Name = ''__name__'', prompb_Label.Value = ''ultrahuman_heart_rate_bpm''\<rparr>],
       Samples = [\<lparr>prompb_Sample.Value = 72, prompb_Sample.Timestamp = 1010000\<rparr>]\<rparr>,
      \<lparr>Labels = [\<lparr>prompb_Label.Name = ''__name__'', prompb_Label.Value = ''ultrahuman_heart_rate_bpm''\<rparr>],
       Samples = [\<lparr>prompb_Sample.Value = 74, prompb_Sample.Timestamp = 1020000\<rparr>]\<rparr>] \<and>
   hwm (after_batch
          [example_timeseries ''hr'' 86400 [(70, 1010), (71, 1005), (72, 1010), (60, 990), (61, 1000)] 0,
           example_timeseries ''hr'' 86400 [(73, 1010), (74, 1020)] 0]
          \<lparr>lastPushedTimestamp = [''hr'' \<mapsto> 1000], globalLatestTimestamp = 1000\<rparr>) ''hr'' = 1020"
proof -
  let ?m = "example_timeseries ''hr'' 86400 [(70, 1010), (71, 1005), (72, 1010), (60, 990), (61, 1000)] 0"
  let ?n = "example_timeseries ''hr'' 86400 [(73, 1010), (74, 1020)] 0"
  let ?s = "\<lparr>lastPushedTimestamp = [''hr'' \<mapsto> 1000], globalLatestTimestamp = 1000\<rparr>"
  let ?v = "\<lparr>TimeSeriesMetric.DayStartTimestamp = 86400, TimeSeriesMetric.Title = ''T'',
             Values = [\<lparr>TimeValue.Value = 70, TimeValue.Timestamp = 1010\<rparr>,
                       \<lparr>TimeValue.Value = 71, TimeValue.Timestamp = 1005\<rparr>,
                       \<lparr>TimeValue.Value = 72, TimeValue.Timestamp = 1010\<rparr>,
                       \<lparr>TimeValue.Value = 60, TimeValue.Timestamp = 990\<rparr>,
                       \<lparr>TimeValue.Value = 61, TimeValue.Timestamp = 1000\<rparr>],
             LastReading = 0, TimeSeriesMetric.Unit = [], Subtitle = [], Avg = 0, Total = 0\<rparr>"
  let ?u = "\<lparr>TimeSeriesMetric.DayStartTimestamp = 86400, TimeSeriesMetric.Title = ''T'',
             Values = [\<lparr>TimeValue.Value = 73, TimeValue.Timestamp = 1010\<rparr>,
                       \<lparr>TimeValue.Value = 74, TimeValue.Timestamp = 1020\<rparr>],
             LastReading = 0, TimeSeriesMetric.Unit = [], Subtitle = [], Avg = 0, Total = 0\<rparr>"
  let ?c = "timeseries_cfg ''last'' ''HEART RATE'' ''BPM'' ''ultrahuman_heart_rate_bpm''"
  note ev = push_metric_def example_timeseries_def registry_hr timeseries_cfg_def lookup0_def
    Let_def updateGlobalTimestamp_def word_sle_eq word_sless_alt buildTimeSeries_def
  have r: "metricRegistry (Type ?m) = Some ?c" and rn: "metricRegistry (Type ?n) = Some ?c"
    by (simp_all add: example_timeseries_def registry_hr)
  have p: "PrometheusName ?c \<noteq> []" and k: "MetricType ?c = ''timeseries''"
    by (simp_all add: timeseries_cfg_def)
  have t: "Type ?m \<noteq> ''steps''" and ty: "Type ?m = ''hr''"
    and tn: "Type ?n \<noteq> ''steps''" and tyn: "Type ?n = ''hr''"
    by (simp_all add: example_timeseries_def)
  have u: "Unmarshal_TimeSeriesMetric (Object ?m) = Some ?v"
    and un: "Unmarshal_TimeSeriesMetric (Object ?n) = Some ?u"
    by (simp_all add: example_timeseries_def)
  have h: "hwm ?s ''hr'' = 1000"
    by (simp add: hwm_def lookup0_def)
  have cmp: "(1000::int64) <s 1010" "(1000::int64) <s 1005" "\<not> (1000::int64) <s 990"
    "\<not> (1000::int64) <s 1000" "(1000::int64) \<le>s 1010" "\<not> (1010::int64) \<le>s 1005"
    "(1010::int64) \<le>s 1010" "\<not> (1010::int64) <s 1010" "(1010::int64) <s 1020"
    "(1010::int64) \<le>s 1020" "(1000::int64) <s 1020"
    by (simp_all add: word_sless_alt word_sle_eq)
  note w = readings_filtered_against_mark_read_once
             [OF r p k t u, where acc = "[]" and s = ?s and metrics = "[?m, ?n]" and s' = ?s
                and ty = "''hr''" and i = 0]
  note x = readings_filtered_against_mark_read_once
             [OF rn p k tn un, where acc = "[]" and s = ?s and metrics = "[?m, ?n]" and s' = ?s
                and ty = "''hr''" and i = 1]
  have c1: "fst (push_metric ?m ([], ?s)) =
     [\<lparr>Labels = [\<lparr>prompb_Label.Name = ''__name__'', prompb_Label.Value = ''ultrahuman_heart_rate_bpm''\<rparr>],
       Samples = [\<lparr>prompb_Sample.Value = 70, prompb_Sample.Timestamp = 1010000\<rparr>]\<rparr>,
      \<lparr>Labels = [\<lparr>prompb_Label.Name = ''__name__'', prompb_Label.Value = ''ultrahuman_heart_rate_bpm''\<rparr>],
       Samples = [\<lparr>prompb_Sample.Value = 71, prompb_Sample.Timestamp = 1005000\<rparr>]\<rparr>,
      \<lparr>Labels = [\<lparr>prompb_Label.Name = ''__name__'', prompb_Label.Value = ''ultrahuman_heart_rate_bpm''\<rparr>],
       Samples = [\<lparr>prompb_Sample.Value = 72, prompb_Sample.Timestamp = 1010000\<rparr>]\<rparr>]"
    using w [THEN conjunct1] by (simp add: ty h cmp timeseries_cfg_def)
  have c2: "hwm (after_metric ?m ?s) ''hr'' = 1010"
    using w [THEN conjunct2, THEN conjunct1]
    unfolding set_filter [symmetric] set_map [symmetric] foldl_smax_Max [symmetric]
    by (simp add: ty h cmp signed.max_def)
  have pre: "fst (push_loop (take 1 [?m, ?n]) ([], ?s)) =
     [\<lparr>Labels = [\<lparr>prompb_Label.Name = ''__name__'', prompb_Label.Value = ''ultrahuman_heart_rate_bpm''\<rparr>],
       Samples = [\<lparr>prompb_Sample.Value = 70, prompb_Sample.Timestamp = 1010000\<rparr>]\<rparr>,
      \<lparr>Labels = [\<lparr>prompb_Label.Name = ''__name__'', prompb_Label.Value = ''ultrahuman_heart_rate_bpm''\<rparr>],
       Samples = [\<lparr>prompb_Sample.Value = 71, prompb_Sample.Timestamp = 1005000\<rparr>]\<rparr>,
      \<lparr>Labels = [\<lparr>prompb_Label.Name = ''__name__'', prompb_Label.Value = ''ultrahuman_heart_rate_bpm''\<rparr>],
       Samples = [\<lparr>prompb_Sample.Value = 72, prompb_Sample.Timestamp = 1010000\<rparr>]\<rparr>]"
    by (simp add: ev)
  have post: "fst (push_loop (drop (Suc 1) [?m, ?n]) ([], st)) = []" for st
    by simp
  have hm: "hwm (after_batch (take 1 [?m, ?n]) ?s) (Type ?n) = 1010"
    by (simp add: after_batch_def hwm_def ev)
  have ix: "1 < length [?m, ?n] \<and> [?m, ?n] ! 1 = ?n"
    by simp
  have c3: "fst (push_loop [?m, ?n] ([], ?s)) =
     [\<lparr>Labels = [\<lparr>prompb_Label.Name = ''__name__'', prompb_Label.Value = ''ultrahuman_heart_rate_bpm''\<rparr>],
       Samples = [\<lparr>prompb_Sample.Value = 70, prompb_Sample.Timestamp = 1010000\<rparr>]\<rparr>,
      \<lparr>Labels = [\<lparr>prompb_Label.Name = ''__name__'', prompb_Label.Value = ''ultrahuman_heart_rate_bpm''\<rparr>],
       Samples = [\<lparr>prompb_Sample.Value = 71, prompb_Sample.Timestamp = 1005000\<rparr>]\<rparr>,
      \<lparr>Labels = [\<lparr>prompb_Label.Name = ''__name__'', prompb_Label.Value = ''ultrahuman_heart_rate_bpm''\<rparr>],
       Samples = [\<lparr>prompb_Sample.Value = 72, prompb_Sample.Timestamp = 1010000\<rparr>]\<rparr>,
      \<lparr>Labels = [\<lparr>prompb_Label.Name = ''__name__'', prompb_Label.Value = ''ultrahuman_heart_rate_bpm''\<rparr>],
       Samples = [\<lparr>prompb_Sample.Value = 74, prompb_Sample.Timestamp = 1020000\<rparr>]\<rparr>]"
    using x [THEN conjunct2, THEN conjunct2, THEN conjunct1, THEN mp, OF ix]
    unfolding pre post hm
    by (simp add: cmp timeseries_cfg_def)
  have bf: "batch_forwarded ?s [?m, ?n] =
              [\<lparr>wireType = ''hr'', outputName = ''ultrahuman_heart_rate_bpm'',
                readingValue = 70, epochSeconds = 1010\<rparr>,
               \<lparr>wireType = ''hr'', outputName = ''ultrahuman_heart_rate_bpm'',
                readingValue = 71, epochSeconds = 1005\<rparr>,
               \<lparr>wireType = ''hr'', outputName = ''ultrahuman_heart_rate_bpm'',
                readingValue = 72, epochSeconds = 1010\<rparr>,
               \<lparr>wireType = ''hr'', outputName = ''ultrahuman_heart_rate_bpm'',
                readingValue = 74, epochSeconds = 1020\<rparr>]"
    by (simp add: batch_forwarded_def unseen_readings_def after_metric_def hwm_def ev)
  have c4: "hwm (after_batch [?m, ?n] ?s) ''hr'' = 1020"
    using w [THEN conjunct2, THEN conjunct2, THEN conjunct2, THEN conjunct2]
    unfolding set_filter [symmetric] set_map [symmetric] foldl_smax_Max [symmetric] bf
    by (simp add: h cmp signed.max_def)
  from c1 c2 c3 c4 show ?thesis by (intro conjI)
qed

text \<open>
  C9 as the specification states it has two readings with equal timestamps inside the
  same batch both forwarded. A batch of two heart-rate envelopes, each with one reading
  at 1010, from the initial state: both timestamps are strictly greater than the mark 0
  with which the batch starts, and only the reading of the first envelope is handed to
  Write, because the second envelope is judged by the mark 1010 that the first has left.
\<close>

theorem equal_timestamps_in_two_envelopes_forwarded_once:
  "hwm initial_state ''hr'' <s 1010 \<and>
   fst (snd (pushMetrics [example_timeseries ''hr'' 86400 [(70, 1010)] 0,
                          example_timeseries ''hr'' 86400 [(72, 1010)] 0]
               (Some accepting_client) initial_state)) =
     [[\<lparr>Labels = [\<lparr>prompb_Label.Name = ''__name__'', prompb_Label.Value = ''ultrahuman_heart_rate_bpm''\<rparr>],
       Samples = [\<lparr>prompb_Sample.Value = 70, prompb_Sample.Timestamp = 1010000\<rparr>]\<rparr>]]"
  by (simp add: pushMetrics_def push_metric_def example_timeseries_def registry_hr
      timeseries_cfg_def hwm_def lookup0_def Let_def updateGlobalTimestamp_def initial_state_def
      word_sle_eq word_sless_alt buildTimeSeries_def)

subsection \<open>Batches and poll cycles\<close>

lemma push_loop_at_envelope:
  assumes "i < length metrics" and "Type (metrics ! i) \<notin> Type ` set (take i metrics)"
  shows "fst (push_loop metrics ([], s)) =
           fst (push_loop (take i metrics) ([], s)) @
           map wire_sample (unseen_readings s (metrics ! i)) @
           fst (push_loop (drop (Suc i) metrics) ([], after_batch (take (Suc i) metrics) s))"
proof -
  let ?pre = "take i metrics" and ?m = "metrics ! i" and ?post = "drop (Suc i) metrics"
  have split: "metrics = ?pre @ ?m # ?post"
    using assms(1) by (simp add: id_take_nth_drop)
  have suc: "take (Suc i) metrics = ?pre @ [?m]"
    using assms(1) by (simp add: take_Suc_conv_app_nth)
  have "hwm (after_batch ?pre s) (Type ?m) = hwm s (Type ?m)"
    by (rule hwm_after_batch_other [OF assms(2)])
  then have same: "unseen_readings (after_batch ?pre s) ?m = unseen_readings s ?m"
    by (rule unseen_readings_cong)
  have "batch_forwarded s metrics = batch_forwarded s (?pre @ ?m # ?post)"
    using split by simp
  also have "\<dots> = batch_forwarded s ?pre @ unseen_readings s ?m @
                    batch_forwarded (after_metric ?m (after_batch ?pre s)) ?post"
    by (simp only: batch_forwarded_append batch_forwarded_Cons same)
  also have "after_metric ?m (after_batch ?pre s) = after_batch (take (Suc i) metrics) s"
    by (simp add: suc after_batch_append after_batch_Cons after_batch_Nil)
  finally show ?thesis by (simp add: push_loop_fst)
qed

lemma mark_is_max_forwarded:
  assumes "{f \<in> set (batch_forwarded s ms). wireType f = ty} \<noteq> {}"
  shows "hwm (after_batch ms s) ty =
           signed.Max (epochSeconds ` {f \<in> set (batch_forwarded s ms). wireType f = ty})"
proof -
  let ?S = "epochSeconds ` {f \<in> set (batch_forwarded s ms). wireType f = ty}"
  have fin: "finite ?S" by simp
  have ne: "?S \<noteq> {}" using assms by simp
  have "signed.Max ?S \<in> ?S" by (rule signed.Max_in [OF fin ne])
  then obtain f where "f \<in> set (batch_forwarded s ms)" "wireType f = ty"
    "signed.Max ?S = epochSeconds f" by auto
  with batch_forwarded_above_mark [of f s ms] have "hwm s ty <s signed.Max ?S" by simp
  then have "signed.max (hwm s ty) (signed.Max ?S) = signed.Max ?S"
    by (rule signed.max.absorb4)
  moreover have "signed.Max (insert (hwm s ty) ?S) = signed.max (hwm s ty) (signed.Max ?S)"
    by (rule signed.Max_insert [OF fin ne])
  ultimately show ?thesis by (simp add: hwm_after_batch_set)
qed

text \<open>
  C1, as the code has it. Let envelope number \<open>i\<close> of a batch be an envelope of a
  per-reading metric (forwardable, not steps) whose wire type does not occur earlier in
  the batch. Then the batch pushMetrics builds consists of the samples of the earlier
  envelopes, then exactly the readings of this envelope whose timestamp is strictly
  greater than the mark its wire type had at the start of the batch (a reading at the
  mark is not forwarded), then the samples of the later envelopes. (When the wire type
  does occur earlier in the batch, the envelope is judged by the mark those envelopes
  have left, as the counterexample below shows.) Across two poll cycles: the state a
  call of pushMetrics leaves is the state its loop leaves, whatever Write returns; if
  the earlier cycle has forwarded readings of the wire type, the later cycle forwards
  of this envelope exactly the readings strictly greater than the maximum timestamp the
  earlier cycle forwarded for the wire type; and whatever a later cycle forwards for a
  wire type is strictly newer than everything an earlier cycle forwarded for it, so no
  sample is forwarded in both.
\<close>

theorem forwarded_iff_above_mark_of_envelope:
  assumes "i < length metrics" and "metrics ! i = m"
    and "metricRegistry (Type m) = Some config" and "PrometheusName config \<noteq> []"
    and "MetricType config = ''timeseries''" and "Type m \<noteq> ''steps''"
    and "Unmarshal_TimeSeriesMetric (Object m) = Some v"
    and "Type m \<notin> Type ` set (take i metrics)"
  shows "fst (push_loop metrics ([], s)) =
           fst (push_loop (take i metrics) ([], s)) @
           map (\<lambda>r. buildTimeSeries (PrometheusName config) (TimeValue.Value r)
                       (TimeValue.Timestamp r * 1000))
             (filter (\<lambda>r. hwm s (Type m) <s TimeValue.Timestamp r) (Values v)) @
           fst (push_loop (drop (Suc i) metrics) ([], after_batch (take (Suc i) metrics) s)) \<and>
         snd (snd (pushMetrics prev (Some c) sa)) = after_batch prev sa \<and>
         fst (push_loop prev ([], sa)) = map wire_sample (batch_forwarded sa prev) \<and>
         ({f \<in> set (batch_forwarded sa prev). wireType f = Type m} \<noteq> {} \<longrightarrow>
            fst (push_loop metrics ([], after_batch prev sa)) =
              fst (push_loop (take i metrics) ([], after_batch prev sa)) @
              map (\<lambda>r. buildTimeSeries (PrometheusName config) (TimeValue.Value r)
                          (TimeValue.Timestamp r * 1000))
                (filter (\<lambda>r. signed.Max (epochSeconds `
                                 {f \<in> set (batch_forwarded sa prev). wireType f = Type m})
                              <s TimeValue.Timestamp r) (Values v)) @
              fst (push_loop (drop (Suc i) metrics)
                     ([], after_batch (take (Suc i) metrics) (after_batch prev sa)))) \<and>
         (f \<in> set (batch_forwarded sa prev) \<and>
          g \<in> set (batch_forwarded (after_batch prev sa) later) \<and>
          wireType f = wireType g \<longrightarrow> epochSeconds f <s epochSeconds g)"
proof -
  have env: "map wire_sample (unseen_readings st m) =
           map (\<lambda>r. buildTimeSeries (PrometheusName config) (TimeValue.Value r)
                       (TimeValue.Timestamp r * 1000))
             (filter (\<lambda>r. hwm st (Type m) <s TimeValue.Timestamp r) (Values v))" for st
    using assms(2)
    by (simp add: unseen_readings_timeseries [OF assms(3-7)] wire_sample_def comp_def)
  have a: "fst (push_loop metrics ([], st)) =
           fst (push_loop (take i metrics) ([], st)) @
           map (\<lambda>r. buildTimeSeries (PrometheusName config) (TimeValue.Value r)
                       (TimeValue.Timestamp r * 1000))
             (filter (\<lambda>r. hwm st (Type m) <s TimeValue.Timestamp r) (Values v)) @
           fst (push_loop (drop (Suc i) metrics) ([], after_batch (take (Suc i) metrics) st))"
    for st
    using push_loop_at_envelope [of i metrics st] assms(1,2,8) by (simp add: env)
  have b: "snd (snd (pushMetrics prev (Some c) sa)) = after_batch prev sa"
    by (simp add: pushMetrics_eq)
  have c: "fst (push_loop prev ([], sa)) = map wire_sample (batch_forwarded sa prev)"
    by (rule push_loop_fst)
  have d: "fst (push_loop metrics ([], after_batch prev sa)) =
              fst (push_loop (take i metrics) ([], after_batch prev sa)) @
              map (\<lambda>r. buildTimeSeries (PrometheusName config) (TimeValue.Value r)
                          (TimeValue.Timestamp r * 1000))
                (filter (\<lambda>r. signed.Max (epochSeconds `
                                 {f \<in> set (batch_forwarded sa prev). wireType f = Type m})
                              <s TimeValue.Timestamp r) (Values v)) @
              fst (push_loop (drop (Suc i) metrics)
                     ([], after_batch (take (Suc i) metrics) (after_batch prev sa)))"
    if "{f \<in> set (batch_forwarded sa prev). wireType f = Type m} \<noteq> {}"
    using a [of "after_batch prev sa"] by (simp only: mark_is_max_forwarded [OF that])
  have e: "epochSeconds f <s epochSeconds g"
    if "f \<in> set (batch_forwarded sa prev)"
       "g \<in> set (batch_forwarded (after_batch prev sa) later)" "wireType f = wireType g"
    using that by (rule never_forwarded_twice)
  from a [of s] b c d e show ?thesis by blast
qed

text \<open>
  The first cycle forwards the heart-rate readings at 1000 and 1005. A second cycle
  that receives them again with a new reading at 1010, behind a steps envelope, forwards
  the steps total and the reading at 1010 only; from the initial state the same batch
  forwards all three readings.
\<close>

theorem forwarded_iff_above_mark_of_envelope_witness:
  "fst (push_loop [example_timeseries ''steps'' 86400 [] 500,
                   example_timeseries ''hr'' 86400 [(70, 1000), (72, 1005), (75, 1010)] 0]
          ([], initial_state)) =
     [buildTimeSeries ''ultrahuman_steps_total'' 500 86400000,
      buildTimeSeries ''ultrahuman_heart_rate_bpm'' 70 1000000,
      buildTimeSeries ''ultrahuman_heart_rate_bpm'' 72 1005000,
      buildTimeSeries ''ultrahuman_heart_rate_bpm'' 75 1010000] \<and>
   fst (push_loop [example_timeseries ''hr'' 86400 [(70, 1000), (72, 1005)] 0] ([], initial_state)) =
     [buildTimeSeries ''ultrahuman_heart_rate_bpm'' 70 1000000,
      buildTimeSeries ''ultrahuman_heart_rate_bpm'' 72 1005000] \<and>
   fst (push_loop [example_timeseries ''steps'' 86400 [] 500,
                   example_timeseries ''hr'' 86400 [(70, 1000), (72, 1005), (75, 1010)] 0]
          ([], snd (snd (pushMetrics [example_timeseries ''hr'' 86400 [(70, 1000), (72, 1005)] 0]
                           (Some accepting_client) initial_state)))) =
     [buildTimeSeries ''ultrahuman_steps_total'' 500 86400000,
      buildTimeSeries ''ultrahuman_heart_rate_bpm'' 75 1010000] \<and>
   \<lparr>wireType = ''hr'', outputName = ''ultrahuman_heart_rate_bpm'', readingValue = 72,
     epochSeconds = 1005\<rparr>
     \<in> set (batch_forwarded initial_state
                [example_timeseries ''hr'' 86400 [(70, 1000), (72, 1005)] 0]) \<and>
   \<lparr>wireType = ''hr'', outputName = ''ultrahuman_heart_rate_bpm'', readingValue = 75,
     epochSeconds = 1010\<rparr>
     \<in> set (batch_forwarded
                (after_batch [example_timeseries ''hr'' 86400 [(70, 1000), (72, 1005)] 0]
                   initial_state)
                [example_timeseries ''steps'' 86400 [] 500,
                 example_timeseries ''hr'' 86400 [(70, 1000), (72, 1005), (75, 1010)] 0]) \<and>
   epochSeconds \<lparr>wireType = ''hr'', outputName = ''ultrahuman_heart_rate_bpm'',
                  readingValue = 72, epochSeconds = 1005\<rparr> <s
   epochSeconds \<lparr>wireType = ''hr'', outputName = ''ultrahuman_heart_rate_bpm'',
                  readingValue = 75, epochSeconds = 1010\<rparr>"
proof -
  let ?f = "\<lparr>wireType = ''hr'', outputName = ''ultrahuman_heart_rate_bpm'', readingValue = 72,
             epochSeconds = 1005\<rparr>"
  let ?g = "\<lparr>wireType = ''hr'', outputName = ''ultrahuman_heart_rate_bpm'', readingValue = 75,
             epochSeconds = 1010\<rparr>"
  let ?st = "example_timeseries ''steps'' 86400 [] 500"
  let ?m = "example_timeseries ''hr'' 86400 [(70, 1000), (72, 1005), (75, 1010)] 0"
  let ?m1 = "example_timeseries ''hr'' 86400 [(70, 1000), (72, 1005)] 0"
  let ?v = "\<lparr>TimeSeriesMetric.DayStartTimestamp = 86400, TimeSeriesMetric.Title = ''T'',
             Values = [\<lparr>TimeValue.Value = 70, TimeValue.Timestamp = 1000\<rparr>,
                       \<lparr>TimeValue.Value = 72, TimeValue.Timestamp = 1005\<rparr>,
                       \<lparr>TimeValue.Value = 75, TimeValue.Timestamp = 1010\<rparr>],
             LastReading = 0, TimeSeriesMetric.Unit = [], Subtitle = [], Avg = 0, Total = 0\<rparr>"
  let ?c = "timeseries_cfg ''last'' ''HEART RATE'' ''BPM'' ''ultrahuman_heart_rate_bpm''"
  have i: "1 < length [?st, ?m]" and n: "[?st, ?m] ! 1 = ?m" by simp_all
  have r: "metricRegistry (Type ?m) = Some ?c"
    by (simp add: example_timeseries_def registry_hr)
  have p: "PrometheusName ?c \<noteq> []" and k: "MetricType ?c = ''timeseries''"
    by (simp_all add: timeseries_cfg_def)
  have t: "Type ?m \<noteq> ''steps''" and ty: "Type ?m = ''hr''"
    by (simp_all add: example_timeseries_def)
  have u: "Unmarshal_TimeSeriesMetric (Object ?m) = Some ?v"
    by (simp add: example_timeseries_def)
  have e: "Type ?m \<notin> Type ` set (take 1 [?st, ?m])"
    by (simp add: example_timeseries_def)
  note w = forwarded_iff_above_mark_of_envelope
             [OF i n r p k t u e, where s = initial_state and prev = "[?m1]"
                and sa = initial_state and c = accepting_client and later = "[?st, ?m]"
                and f = ?f and g = ?g]
  have h0: "hwm initial_state ty = 0" for ty
    by (simp add: hwm_def lookup0_def initial_state_def)
  have pre0: "fst (push_loop (take 1 [?st, ?m]) ([], st)) =
                (if hwm st ''steps'' <s 86400
                 then [buildTimeSeries ''ultrahuman_steps_total'' 500 86400000] else [])" for st
    by (simp add: push_metric_def example_timeseries_def registry_steps timeseries_cfg_def
        Let_def hwm_def)
  have post0: "fst (push_loop (drop (Suc 1) [?st, ?m]) ([], st)) = []" for st
    by simp
  have cmp: "(0::int64) <s 86400" "(0::int64) <s 1000" "(0::int64) <s 1005" "(0::int64) <s 1010"
    "\<not> (1005::int64) <s 1000" "\<not> (1005::int64) <s 1005" "(1005::int64) <s 1010"
    "(1000::int64) \<le>s 1005"
    by (simp_all add: word_sless_alt word_sle_eq)
  have c1: "fst (push_loop [?st, ?m] ([], initial_state)) =
     [buildTimeSeries ''ultrahuman_steps_total'' 500 86400000,
      buildTimeSeries ''ultrahuman_heart_rate_bpm'' 70 1000000,
      buildTimeSeries ''ultrahuman_heart_rate_bpm'' 72 1005000,
      buildTimeSeries ''ultrahuman_heart_rate_bpm'' 75 1010000]"
    using w [THEN conjunct1] unfolding pre0 post0
    by (simp add: h0 ty cmp timeseries_cfg_def)
  have bf: "batch_forwarded initial_state [?m1] =
              [\<lparr>wireType = ''hr'', outputName = ''ultrahuman_heart_rate_bpm'',
                readingValue = 70, epochSeconds = 1000\<rparr>,
               \<lparr>wireType = ''hr'', outputName = ''ultrahuman_heart_rate_bpm'',
                readingValue = 72, epochSeconds = 1005\<rparr>]"
    by (simp add: batch_forwarded_def unseen_readings_def example_timeseries_def registry_hr
        timeseries_cfg_def h0 cmp)
  have c2: "fst (push_loop [?m1] ([], initial_state)) =
     [buildTimeSeries ''ultrahuman_heart_rate_bpm'' 70 1000000,
      buildTimeSeries ''ultrahuman_heart_rate_bpm'' 72 1005000]"
    using w [THEN conjunct2, THEN conjunct2, THEN conjunct1]
    by (simp add: bf wire_sample_def)
  have st1: "snd (snd (pushMetrics [?m1] (Some accepting_client) initial_state)) =
               after_batch [?m1] initial_state"
    by (rule w [THEN conjunct2, THEN conjunct1])
  have hs: "hwm (after_batch [?m1] initial_state) ''steps'' = 0"
    by (simp add: hwm_after_batch_foldl bf h0)
  have ne: "{f \<in> set (batch_forwarded initial_state [?m1]). wireType f = Type ?m} \<noteq> {}"
    unfolding set_filter [symmetric] ty by (simp add: bf)
  have mx: "signed.Max (epochSeconds `
              {f \<in> set (batch_forwarded initial_state [?m1]). wireType f = Type ?m}) = 1005"
    unfolding set_filter [symmetric] set_map [symmetric] bf ty by simp
  have c3: "fst (push_loop [?st, ?m] ([], after_batch [?m1] initial_state)) =
     [buildTimeSeries ''ultrahuman_steps_total'' 500 86400000,
      buildTimeSeries ''ultrahuman_heart_rate_bpm'' 75 1010000]"
    using w [THEN conjunct2, THEN conjunct2, THEN conjunct2, THEN conjunct1, rule_format, OF ne]
    unfolding pre0 post0 mx
    by (simp add: hs cmp timeseries_cfg_def)
  have c123: "fst (push_loop [?st, ?m] ([], initial_state)) =
     [buildTimeSeries ''ultrahuman_steps_total'' 500 86400000,
      buildTimeSeries ''ultrahuman_heart_rate_bpm'' 70 1000000,
      buildTimeSeries ''ultrahuman_heart_rate_bpm'' 72 1005000,
      buildTimeSeries ''ultrahuman_heart_rate_bpm'' 75 1010000] \<and>
   fst (push_loop [?m1] ([], initial_state)) =
     [buildTimeSeries ''ultrahuman_heart_rate_bpm'' 70 1000000,
      buildTimeSeries ''ultrahuman_heart_rate_bpm'' 72 1005000] \<and>
   fst (push_loop [?st, ?m]
          ([], snd (snd (pushMetrics [?m1] (Some accepting_client) initial_state)))) =
     [buildTimeSeries ''ultrahuman_steps_total'' 500 86400000,
      buildTimeSeries ''ultrahuman_heart_rate_bpm'' 75 1010000]"
    using c1 c2 c3 by (simp only: st1)
  note ev = batch_forwarded_def unseen_readings_def after_metric_def after_batch_def
    push_metric_def example_timeseries_def registry_hr registry_steps timeseries_cfg_def
    hwm_def lookup0_def Let_def updateGlobalTimestamp_def initial_state_def
    word_sle_eq word_sless_alt
  have f: "?f \<in> set (batch_forwarded initial_state [?m1])"
    by (simp add: bf)
  have g: "?g \<in> set (batch_forwarded (after_batch [?m1] initial_state) [?st, ?m])"
    by (simp add: ev)
  have fg: "?f \<in> set (batch_forwarded initial_state [?m1]) \<and>
            ?g \<in> set (batch_forwarded (after_batch [?m1] initial_state) [?st, ?m]) \<and>
            wireType ?f = wireType ?g"
    using f g by simp
  have c4: "epochSeconds ?f <s epochSeconds ?g"
    using w [THEN conjunct2, THEN conjunct2, THEN conjunct2, THEN conjunct2] fg by (rule mp)
  from c123 f g c4 show ?thesis by (intro conjI) simp_all
qed

text \<open>
  C1 as the specification states it compares every reading with the mark at the start
  of the batch. A batch with two heart-rate envelopes, from the initial state: the
  reading at 1000 of the second envelope is strictly greater than the mark 0 with which
  the batch starts, and it is not forwarded, because the first envelope has raised the
  mark to 1005 by then.
\<close>

theorem later_envelope_judged_by_updated_mark:
  "hwm initial_state ''hr'' <s 1000 \<and>
   fst (snd (pushMetrics [example_timeseries ''hr'' 86400 [(72, 1005)] 0,
                          example_timeseries ''hr'' 86400 [(70, 1000)] 0]
               (Some accepting_client) initial_state)) =
     [[buildTimeSeries ''ultrahuman_heart_rate_bpm'' 72 1005000]]"
  by (simp add: pushMetrics_def push_metric_def example_timeseries_def registry_hr
      timeseries_cfg_def hwm_def lookup0_def Let_def updateGlobalTimestamp_def initial_state_def
      word_sle_eq word_sless_alt)

subsection \<open>Timestamps on the wire\<close>

lemma unseen_reading_origin:
  assumes "f \<in> set (unseen_readings s m)"
  shows "\<exists>v. Unmarshal_TimeSeriesMetric (Object m) = Some v \<and> forwardable m \<and>
             (if Type m = ''steps''
              then epochSeconds f = TimeSeriesMetric.DayStartTimestamp v \<and> readingValue f = Total v
              else \<exists>r\<in>set (Values v).
                     epochSeconds f = TimeValue.Timestamp r \<and> readingValue f = TimeValue.Value r)"
proof (cases "metricRegistry (Type m)")
  case None
  with assms show ?thesis by (simp add: unseen_readings_def)
next
  case (Some config)
  show ?thesis
  proof (cases "PrometheusName config = [] \<or> MetricType config \<noteq> ''timeseries''")
    case True
    with Some assms show ?thesis by (auto simp: unseen_readings_def)
  next
    case elig: False
    with Some have fw: "forwardable m" by (simp add: forwardable_def)
    show ?thesis
    proof (cases "Unmarshal_TimeSeriesMetric (Object m)")
      case None
      with Some elig assms show ?thesis by (auto simp: unseen_readings_def)
    next
      case v: (Some v)
      show ?thesis
      proof (cases "Type m = ''steps''")
        case True
        with Some elig v assms
        have "epochSeconds f = TimeSeriesMetric.DayStartTimestamp v \<and> readingValue f = Total v"
          by (auto simp: unseen_readings_def split: if_splits)
        with True v fw show ?thesis by simp
      next
        case False
        with Some elig v assms
        have "\<exists>r\<in>set (Values v).
                epochSeconds f = TimeValue.Timestamp r \<and> readingValue f = TimeValue.Value r"
          by (auto simp: unseen_readings_def)
        with False v fw show ?thesis by simp
      qed
    qed
  qed
qed

lemma batch_forwarded_origin:
  "f \<in> set (batch_forwarded s ms) \<Longrightarrow> \<exists>m\<in>set ms. \<exists>s'. f \<in> set (unseen_readings s' m)"
proof (induction ms arbitrary: s)
  case Nil
  then show ?case by (simp add: batch_forwarded_Nil)
next
  case (Cons m ms)
  from Cons.prems consider "f \<in> set (unseen_readings s m)"
    | "f \<in> set (batch_forwarded (after_metric m s) ms)"
    by (auto simp: batch_forwarded_Cons)
  then show ?case
  proof cases
    case 1
    then show ?thesis by auto
  next
    case 2
    from Cons.IH [OF 2] show ?thesis by auto
  qed
qed

lemma seconds_to_millis_exact:
  fixes ts :: int64
  assumes "- 9223372036854775 \<le> sint ts" and "sint ts \<le> 9223372036854775"
  shows "sint (ts * 1000) = sint ts * 1000"
proof -
  have "sint (ts * 1000) = signed_take_bit 63 (sint ts * sint (1000 :: int64))"
    by (simp add: sint_word_mult)
  also have "sint (1000 :: int64) = 1000" by simp
  also have "signed_take_bit 63 (sint ts * 1000) = sint ts * 1000"
    using assms by (intro signed_take_bit_int_eq_self) simp_all
  finally show ?thesis .
qed

text \<open>
  C3. Every sample of a batch that pushMetrics hands to the remote-write client comes
  from an envelope of the call: from a reading of that envelope, with the reading's
  value and the reading's own timestamp, or, for steps, from the record itself, with
  the day's total and the day-start. The sample's timestamp is that epoch-seconds value
  times 1000, computed as the source computes it, in int64; for every epoch-seconds
  value between -9223372036854775 and 9223372036854775 the product does not wrap and
  is the exact number of milliseconds. The time of the poll is no input of pushMetrics
  and cannot stand in a sample.
\<close>

theorem wire_timestamp_is_sensor_seconds_times_1000:
  assumes "batch \<in> set (fst (snd (pushMetrics metrics rwClient s)))" and "x \<in> set batch"
  shows "\<exists>m\<in>set metrics. \<exists>v ts val.
           forwardable m \<and> Unmarshal_TimeSeriesMetric (Object m) = Some v \<and>
           Samples x = [\<lparr>prompb_Sample.Value = val, prompb_Sample.Timestamp = ts * 1000\<rparr>] \<and>
           (if Type m = ''steps''
            then ts = TimeSeriesMetric.DayStartTimestamp v \<and> val = Total v
            else \<exists>r\<in>set (Values v). ts = TimeValue.Timestamp r \<and> val = TimeValue.Value r) \<and>
           (- 9223372036854775 \<le> sint ts \<and> sint ts \<le> 9223372036854775 \<longrightarrow>
              sint (ts * 1000) = sint ts * 1000)"
proof -
  obtain c where c: "rwClient = Some c"
    using assms(1) by (cases rwClient) (simp_all add: pushMetrics_nil_client)
  from assms(1) have "batch = map wire_sample (batch_forwarded s metrics)"
    by (simp add: c pushMetrics_eq split: if_splits)
  with assms(2) obtain f where f: "f \<in> set (batch_forwarded s metrics)" and x: "x = wire_sample f"
    by auto
  from batch_forwarded_origin [OF f] obtain m s' where m: "m \<in> set metrics"
    and u: "f \<in> set (unseen_readings s' m)" by auto
  from unseen_reading_origin [OF u] obtain v
    where v: "Unmarshal_TimeSeriesMetric (Object m) = Some v" and fw: "forwardable m"
      and o: "if Type m = ''steps''
              then epochSeconds f = TimeSeriesMetric.DayStartTimestamp v \<and> readingValue f = Total v
              else \<exists>r\<in>set (Values v).
                     epochSeconds f = TimeValue.Timestamp r \<and> readingValue f = TimeValue.Value r"
    by auto
  have sm: "Samples x = [\<lparr>prompb_Sample.Value = readingValue f,
                          prompb_Sample.Timestamp = epochSeconds f * 1000\<rparr>]"
    by (simp add: x wire_sample_def buildTimeSeries_def)
  have ex: "- 9223372036854775 \<le> sint (epochSeconds f) \<and> sint (epochSeconds f) \<le> 9223372036854775
            \<longrightarrow> sint (epochSeconds f * 1000) = sint (epochSeconds f) * 1000"
    by (simp add: seconds_to_millis_exact)
  from m v fw sm o ex show ?thesis by blast
qed

text \<open>
  A steps record of the day starting at 86400 and heart-rate readings at 1000 and 1005
  go out at 86400000, 1000000 and 1005000 ms.
\<close>

theorem wire_timestamp_is_sensor_seconds_times_1000_witness:
  "fst (snd (pushMetrics [example_timeseries ''steps'' 86400 [(120, 90000)] 500,
                          example_timeseries ''hr'' 86400 [(70, 1000), (72, 1005)] 0]
               (Some accepting_client) initial_state)) =
     [[buildTimeSeries ''ultrahuman_steps_total'' 500 86400000,
       buildTimeSeries ''ultrahuman_heart_rate_bpm'' 70 1000000,
       buildTimeSeries ''ultrahuman_heart_rate_bpm'' 72 1005000]] \<and>
   (\<exists>m\<in>set [example_timeseries ''steps'' 86400 [(120, 90000)] 500,
              example_timeseries ''hr'' 86400 [(70, 1000), (72, 1005)] 0].
      \<exists>v ts val.
        forwardable m \<and> Unmarshal_TimeSeriesMetric (Object m) = Some v \<and>
        Samples (buildTimeSeries ''ultrahuman_heart_rate_bpm'' 72 1005000) =
          [\<lparr>prompb_Sample.Value = val, prompb_Sample.Timestamp = ts * 1000\<rparr>] \<and>
        (if Type m = ''steps''
         then ts = TimeSeriesMetric.DayStartTimestamp v \<and> val = Total v
         else \<exists>r\<in>set (Values v). ts = TimeValue.Timestamp r \<and> val = TimeValue.Value r) \<and>
        (- 9223372036854775 \<le> sint ts \<and> sint ts \<le> 9223372036854775 \<longrightarrow>
           sint (ts * 1000) = sint ts * 1000))"
proof -
  let ?ms = "[example_timeseries ''steps'' 86400 [(120, 90000)] 500,
              example_timeseries ''hr'' 86400 [(70, 1000), (72, 1005)] 0]"
  let ?b = "[buildTimeSeries ''ultrahuman_steps_total'' 500 86400000,
             buildTimeSeries ''ultrahuman_heart_rate_bpm'' 70 1000000,
             buildTimeSeries ''ultrahuman_heart_rate_bpm'' 72 1005000]"
  have b: "fst (snd (pushMetrics ?ms (Some accepting_client) initial_state)) = [?b]"
    by (simp add: pushMetrics_def push_metric_def example_timeseries_def registry_hr
        registry_steps timeseries_cfg_def lookup0_def Let_def updateGlobalTimestamp_def
        initial_state_def word_sle_eq word_sless_alt)
  have i: "?b \<in> set (fst (snd (pushMetrics ?ms (Some accepting_client) initial_state)))"
    by (simp only: b) simp
  have x: "buildTimeSeries ''ultrahuman_heart_rate_bpm'' 72 1005000 \<in> set ?b"
    by simp
  from b wire_timestamp_is_sensor_seconds_times_1000 [OF i x] show ?thesis
    by (rule conjI)
qed

subsection \<open>Runs of pushMetrics\<close>

lemma pushMetrics_state:
  "snd (snd (pushMetrics metrics rwClient s)) =
     (case rwClient of None \<Rightarrow> s | Some c \<Rightarrow> after_batch metrics s)"
  by (cases rwClient) (simp_all add: pushMetrics_nil_client pushMetrics_eq)

lemma hwm_pushMetrics_mono: "hwm s ty \<le>s hwm (snd (snd (pushMetrics metrics rwClient s))) ty"
  by (cases rwClient) (simp_all add: pushMetrics_state hwm_after_batch_mono)

lemma hwm_run_mono: "hwm s ty \<le>s hwm (pushMetrics_run calls s) ty"
proof (induction calls arbitrary: s)
  case Nil
  show ?case by simp
next
  case (Cons call calls)
  obtain metrics rwClient where call: "call = (metrics, rwClient)" by (cases call)
  have "hwm s ty \<le>s hwm (snd (snd (pushMetrics metrics rwClient s))) ty"
    by (rule hwm_pushMetrics_mono)
  also have "\<dots> \<le>s hwm (pushMetrics_run calls (snd (snd (pushMetrics metrics rwClient s)))) ty"
    by (rule Cons.IH)
  finally show ?case by (simp add: call)
qed

lemma run_forwarded_above_mark:
  "g \<in> set (run_forwarded calls s) \<Longrightarrow> hwm s (wireType g) <s epochSeconds g"
proof (induction calls arbitrary: s)
  case Nil
  then show ?case by simp
next
  case (Cons call calls)
  obtain metrics rwClient where call: "call = (metrics, rwClient)" by (cases call)
  let ?s' = "snd (snd (pushMetrics metrics rwClient s))"
  from Cons.prems consider
      (head) c where "rwClient = Some c" "g \<in> set (batch_forwarded s metrics)"
    | (tail) "g \<in> set (run_forwarded calls ?s')"
    by (auto simp: call split: option.splits)
  then show ?case
  proof cases
    case head
    then show ?thesis by (simp add: batch_forwarded_above_mark)
  next
    case tail
    have "hwm s (wireType g) \<le>s hwm ?s' (wireType g)" by (rule hwm_pushMetrics_mono)
    also have "\<dots> <s epochSeconds g" by (rule Cons.IH [OF tail])
    finally show ?thesis .
  qed
qed

lemma global_run_foldl:
  "globalLatestTimestamp (pushMetrics_run calls s) =
     foldl signed.max (globalLatestTimestamp s) (map epochSeconds (run_forwarded calls s))"
proof (induction calls arbitrary: s)
  case Nil
  show ?case by simp
next
  case (Cons call calls)
  obtain metrics rwClient where call: "call = (metrics, rwClient)" by (cases call)
  show ?case
    by (cases rwClient)
      (simp_all add: call Cons.IH pushMetrics_state global_after_batch_foldl)
qed

lemma global_run:
  "globalLatestTimestamp (pushMetrics_run calls s) =
     signed.Max (insert (globalLatestTimestamp s) (epochSeconds ` set (run_forwarded calls s)))"
  by (simp add: global_run_foldl foldl_smax_Max)

text \<open>
  C6. When the write of a batch fails (pushMetrics returns an error), nothing of what
  the loop recorded is rolled back. The failed call of Write was made with the batch of
  the forwarded readings; the state the call leaves is the state the loop has left, the
  same state the call leaves with any other client, a succeeding one included; every
  mark stands at the maximum of its earlier value and the timestamps forwarded for its
  wire type. So the readings of the failed batch are not retried: submitting the same
  metrics again, to any client, forwards nothing, makes no call of Write and changes
  nothing, and whatever any later call forwards for a wire type is strictly newer than
  everything the failed batch held for it.
\<close>

theorem failed_write_keeps_marks:
  assumes "fst (pushMetrics metrics (Some c) s) = Some e"
  shows "fst (snd (pushMetrics metrics (Some c) s)) = [map wire_sample (batch_forwarded s metrics)] \<and>
         snd (snd (pushMetrics metrics (Some c) s)) = after_batch metrics s \<and>
         snd (snd (pushMetrics metrics (Some c) s)) = snd (snd (pushMetrics metrics (Some c') s)) \<and>
         hwm (snd (snd (pushMetrics metrics (Some c) s))) ty =
           signed.Max (insert (hwm s ty)
             (epochSeconds ` {f \<in> set (batch_forwarded s metrics). wireType f = ty})) \<and>
         pushMetrics metrics rwClient (snd (snd (pushMetrics metrics (Some c) s))) =
           (None, [], snd (snd (pushMetrics metrics (Some c) s))) \<and>
         (f \<in> set (batch_forwarded s metrics) \<and>
          g \<in> set (run_forwarded calls (snd (snd (pushMetrics metrics (Some c) s)))) \<and>
          wireType f = wireType g \<longrightarrow> epochSeconds f <s epochSeconds g)"
proof -
  let ?s' = "snd (snd (pushMetrics metrics (Some c) s))"
  have st: "?s' = after_batch metrics s" by (simp add: pushMetrics_state)
  have w: "fst (snd (pushMetrics metrics (Some c) s)) =
             [map wire_sample (batch_forwarded s metrics)]"
    using assms by (simp add: pushMetrics_eq split: if_splits)
  have ind: "?s' = snd (snd (pushMetrics metrics (Some c') s))"
    by (simp add: pushMetrics_state)
  have mark: "hwm ?s' ty =
           signed.Max (insert (hwm s ty)
             (epochSeconds ` {f \<in> set (batch_forwarded s metrics). wireType f = ty}))"
    by (simp only: st hwm_after_batch_set)
  have "pushMetrics metrics rwClient (after_batch metrics s) = (None, [], after_batch metrics s)"
    by (cases rwClient)
      (simp_all add: pushMetrics_nil_client pushMetrics_eq resubmission_forwards_nothing)
  then have again: "pushMetrics metrics rwClient ?s' = (None, [], ?s')"
    by (simp only: st)
  have never: "epochSeconds f <s epochSeconds g"
    if f: "f \<in> set (batch_forwarded s metrics)" and g: "g \<in> set (run_forwarded calls ?s')"
      and ty: "wireType f = wireType g"
  proof -
    have "epochSeconds f \<le>s hwm ?s' (wireType f)"
      using forwarded_le_mark_after [OF f] by (simp only: st)
    also have "\<dots> <s epochSeconds g"
      using run_forwarded_above_mark [OF g] by (simp only: ty)
    finally show ?thesis .
  qed
  from w st ind mark again never show ?thesis by blast
qed

text \<open>
  Two heart-rate readings pushed to an endpoint that refuses the connection: the call
  returns the error, the mark stands at 1005 as it does after a successful write, and
  pushing the same readings to a working endpoint afterwards sends nothing.
\<close>

theorem failed_write_keeps_marks_witness:
  "pushMetrics [example_timeseries ''hr'' 86400 [(70, 1000), (72, 1005)] 0]
     (Some unreachable_client) initial_state =
     (Some (SendingRequest ''connection refused''),
      [[buildTimeSeries ''ultrahuman_heart_rate_bpm'' 70 1000000,
        buildTimeSeries ''ultrahuman_heart_rate_bpm'' 72 1005000]],
      \<lparr>lastPushedTimestamp = [''hr'' \<mapsto> 1005], globalLatestTimestamp = 1005\<rparr>) \<and>
   hwm (snd (snd (pushMetrics [example_timeseries ''hr'' 86400 [(70, 1000), (72, 1005)] 0]
                    (Some unreachable_client) initial_state))) ''hr'' = 1005 \<and>
   snd (snd (pushMetrics [example_timeseries ''hr'' 86400 [(70, 1000), (72, 1005)] 0]
               (Some unreachable_client) initial_state)) =
   snd (snd (pushMetrics [example_timeseries ''hr'' 86400 [(70, 1000), (72, 1005)] 0]
               (Some accepting_client) initial_state)) \<and>
   pushMetrics [example_timeseries ''hr'' 86400 [(70, 1000), (72, 1005)] 0]
     (Some accepting_client)
     (snd (snd (pushMetrics [example_timeseries ''hr'' 86400 [(70, 1000), (72, 1005)] 0]
                  (Some unreachable_client) initial_state))) =
     (None, [],
      snd (snd (pushMetrics [example_timeseries ''hr'' 86400 [(70, 1000), (72, 1005)] 0]
                  (Some unreachable_client) initial_state))) \<and>
   \<lparr>wireType = ''hr'', outputName = ''ultrahuman_heart_rate_bpm'', readingValue = 72,
     epochSeconds = 1005\<rparr>
     \<in> set (batch_forwarded initial_state
                [example_timeseries ''hr'' 86400 [(70, 1000), (72, 1005)] 0]) \<and>
   run_forwarded
     [([example_timeseries ''hr'' 86400 [(70, 1000), (72, 1005), (75, 1010)] 0],
       Some accepting_client)]
     (snd (snd (pushMetrics [example_timeseries ''hr'' 86400 [(70, 1000), (72, 1005)] 0]
                  (Some unreachable_client) initial_state))) =
     [\<lparr>wireType = ''hr'', outputName = ''ultrahuman_heart_rate_bpm'', readingValue = 75,
       epochSeconds = 1010\<rparr>] \<and>
   epochSeconds \<lparr>wireType = ''hr'', outputName = ''ultrahuman_heart_rate_bpm'',
                  readingValue = 72, epochSeconds = 1005\<rparr> <s
   epochSeconds \<lparr>wireType = ''hr'', outputName = ''ultrahuman_heart_rate_bpm'',
                  readingValue = 75, epochSeconds = 1010\<rparr>"
proof -
  let ?f = "\<lparr>wireType = ''hr'', outputName = ''ultrahuman_heart_rate_bpm'', readingValue = 72,
             epochSeconds = 1005\<rparr>"
  let ?g = "\<lparr>wireType = ''hr'', outputName = ''ultrahuman_heart_rate_bpm'', readingValue = 75,
             epochSeconds = 1010\<rparr>"
  let ?later = "[([example_timeseries ''hr'' 86400 [(70, 1000), (72, 1005), (75, 1010)] 0],
                  Some accepting_client)]"
  let ?ms = "[example_timeseries ''hr'' 86400 [(70, 1000), (72, 1005)] 0]"
  have run: "pushMetrics ?ms (Some unreachable_client) initial_state =
     (Some (SendingRequest ''connection refused''),
      [[buildTimeSeries ''ultrahuman_heart_rate_bpm'' 70 1000000,
        buildTimeSeries ''ultrahuman_heart_rate_bpm'' 72 1005000]],
      \<lparr>lastPushedTimestamp = [''hr'' \<mapsto> 1005], globalLatestTimestamp = 1005\<rparr>)"
    by (simp add: pushMetrics_def push_metric_def example_timeseries_def registry_hr
        timeseries_cfg_def lookup0_def Let_def updateGlobalTimestamp_def initial_state_def
        word_sle_eq word_sless_alt Write_def unreachable_client_def)
  then have e: "fst (pushMetrics ?ms (Some unreachable_client) initial_state) =
                  Some (SendingRequest ''connection refused'')"
    by simp
  have h0: "hwm initial_state ty = 0" for ty
    by (simp add: hwm_def lookup0_def initial_state_def)
  have cmp: "(0::int64) <s 1000" "(0::int64) <s 1005" "(0::int64) \<le>s 1000"
    "(1000::int64) \<le>s 1005"
    by (simp_all add: word_sless_alt word_sle_eq)
  have bf: "batch_forwarded initial_state ?ms =
              [\<lparr>wireType = ''hr'', outputName = ''ultrahuman_heart_rate_bpm'',
                readingValue = 70, epochSeconds = 1000\<rparr>,
               \<lparr>wireType = ''hr'', outputName = ''ultrahuman_heart_rate_bpm'',
                readingValue = 72, epochSeconds = 1005\<rparr>]"
    by (simp add: batch_forwarded_def unseen_readings_def example_timeseries_def registry_hr
        timeseries_cfg_def h0 cmp)
  note w = failed_write_keeps_marks
             [OF e, where c' = accepting_client and ty = "''hr''"
                and rwClient = "Some accepting_client" and calls = ?later
                and f = ?f and g = ?g]
  have m: "hwm (snd (snd (pushMetrics ?ms (Some unreachable_client) initial_state))) ''hr'' = 1005"
    using w [THEN conjunct2, THEN conjunct2, THEN conjunct2, THEN conjunct1]
    unfolding set_filter [symmetric] set_map [symmetric] foldl_smax_Max [symmetric] bf
    by (simp add: h0 signed.max_def cmp)
  have f: "?f \<in> set (batch_forwarded initial_state ?ms)"
    by (simp add: bf)
  have st: "snd (snd (pushMetrics ?ms (Some unreachable_client) initial_state)) =
              \<lparr>lastPushedTimestamp = [''hr'' \<mapsto> 1005], globalLatestTimestamp = 1005\<rparr>"
    by (simp add: run)
  have rf: "run_forwarded ?later
              (snd (snd (pushMetrics ?ms (Some unreachable_client) initial_state))) = [?g]"
    unfolding st
    by (simp add: batch_forwarded_def unseen_readings_def example_timeseries_def registry_hr
        timeseries_cfg_def hwm_def lookup0_def word_sle_eq word_sless_alt)
  have g: "?g \<in> set (run_forwarded ?later
                        (snd (snd (pushMetrics ?ms (Some unreachable_client) initial_state))))"
    by (simp only: rf) simp
  have ty: "wireType ?f = wireType ?g"
    by simp
  have fg: "?f \<in> set (batch_forwarded initial_state ?ms) \<and>
            ?g \<in> set (run_forwarded ?later
                        (snd (snd (pushMetrics ?ms (Some unreachable_client) initial_state)))) \<and>
            wireType ?f = wireType ?g"
    using f g ty by blast
  have lt: "epochSeconds ?f <s epochSeconds ?g"
    using w [THEN conjunct2, THEN conjunct2, THEN conjunct2, THEN conjunct2, THEN conjunct2] fg
    by (rule mp)
  from run m w [THEN conjunct2, THEN conjunct2, THEN conjunct1]
    w [THEN conjunct2, THEN conjunct2, THEN conjunct2, THEN conjunct2, THEN conjunct1]
    f rf lt
  show ?thesis by (intro conjI)
qed

text \<open>
  C8. Every update of the global latest timestamp sets it to the maximum (in the signed
  order of int64) of its value and the new epoch seconds. Over a run of calls of
  pushMetrics, with any metrics and clients and from any state, its final value is the
  maximum of its initial value and the epoch seconds of all readings forwarded during
  the run (those put into the batches handed to Write), and it is never below its
  initial value. In a process that starts from the initial state and has forwarded
  anything at all, it is exactly the maximum of the forwarded epoch seconds.
\<close>

theorem globalLatestTimestamp_is_maximum_forwarded:
  "globalLatestTimestamp (updateGlobalTimestamp ts s) = signed.max (globalLatestTimestamp s) ts \<and>
   fst (snd (pushMetrics metrics (Some c) s)) =
     (if batch_forwarded s metrics = [] then []
      else [map wire_sample (batch_forwarded s metrics)]) \<and>
   globalLatestTimestamp (pushMetrics_run calls s) =
     signed.Max (insert (globalLatestTimestamp s) (epochSeconds ` set (run_forwarded calls s))) \<and>
   globalLatestTimestamp s \<le>s globalLatestTimestamp (pushMetrics_run calls s) \<and>
   (run_forwarded calls initial_state \<noteq> [] \<longrightarrow>
      globalLatestTimestamp (pushMetrics_run calls initial_state) =
        signed.Max (epochSeconds ` set (run_forwarded calls initial_state)))"
proof -
  have mono: "globalLatestTimestamp s \<le>s globalLatestTimestamp (pushMetrics_run calls s)"
    by (simp add: global_run)
  have init: "globalLatestTimestamp (pushMetrics_run calls initial_state) =
        signed.Max (epochSeconds ` set (run_forwarded calls initial_state))"
    if ne: "run_forwarded calls initial_state \<noteq> []"
  proof -
    let ?S = "epochSeconds ` set (run_forwarded calls initial_state)"
    have fin: "finite ?S" by simp
    have ne': "?S \<noteq> {}" using ne by simp
    have "signed.Max ?S \<in> ?S" by (rule signed.Max_in [OF fin ne'])
    then obtain g where g: "g \<in> set (run_forwarded calls initial_state)"
      and mx: "signed.Max ?S = epochSeconds g" by auto
    have "hwm initial_state (wireType g) = 0"
      by (simp add: hwm_def lookup0_def initial_state_def)
    with run_forwarded_above_mark [OF g] mx have "0 <s signed.Max ?S" by simp
    then have "signed.max 0 (signed.Max ?S) = signed.Max ?S"
      by (rule signed.max.absorb4)
    moreover have "signed.Max (insert 0 ?S) = signed.max 0 (signed.Max ?S)"
      by (rule signed.Max_insert [OF fin ne'])
    moreover have "globalLatestTimestamp initial_state = 0"
      by (simp add: initial_state_def)
    ultimately show ?thesis by (simp add: global_run)
  qed
  from updateGlobalTimestamp_max [of ts s] pushMetrics_eq [of metrics c s]
    global_run [of calls s] mono init
  show ?thesis by auto
qed

text \<open>
  The example run: heart rate at 1000 and 1005 to an unreachable endpoint, then a steps
  record of the day starting at 86400 with a new heart-rate reading at 1010, then a call
  without a client.
\<close>

lemma example_run_forwarded:
  "run_forwarded example_run initial_state =
     [\<lparr>wireType = ''hr'', outputName = ''ultrahuman_heart_rate_bpm'',
       readingValue = 70, epochSeconds = 1000\<rparr>,
      \<lparr>wireType = ''hr'', outputName = ''ultrahuman_heart_rate_bpm'',
       readingValue = 72, epochSeconds = 1005\<rparr>,
      \<lparr>wireType = ''steps'', outputName = ''ultrahuman_steps_total'',
       readingValue = 500, epochSeconds = 86400\<rparr>,
      \<lparr>wireType = ''hr'', outputName = ''ultrahuman_heart_rate_bpm'',
       readingValue = 75, epochSeconds = 1010\<rparr>]"
  by (simp add: example_run_def batch_forwarded_def unseen_readings_def after_metric_def
      pushMetrics_def push_metric_def example_timeseries_def registry_hr registry_steps
      timeseries_cfg_def hwm_def lookup0_def Let_def updateGlobalTimestamp_def initial_state_def
      word_sle_eq word_sless_alt)

theorem globalLatestTimestamp_is_maximum_forwarded_witness:
  "globalLatestTimestamp (updateGlobalTimestamp 900 \<lparr>lastPushedTimestamp = Map.empty,
      globalLatestTimestamp = 1005\<rparr>) = 1005 \<and>
   globalLatestTimestamp (pushMetrics_run example_run initial_state) = 86400 \<and>
   globalLatestTimestamp initial_state \<le>s
     globalLatestTimestamp (pushMetrics_run example_run initial_state)"
proof -
  note w = globalLatestTimestamp_is_maximum_forwarded
             [where ts = 900
                and s = "\<lparr>lastPushedTimestamp = Map.empty, globalLatestTimestamp = 1005\<rparr>"]
  note v = globalLatestTimestamp_is_maximum_forwarded
             [where calls = example_run and s = initial_state]
  have cmp: "\<not> (1005::int64) \<le>s 900" "(1000::int64) \<le>s 1005" "(1005::int64) \<le>s 86400"
    "\<not> (86400::int64) \<le>s 1010"
    by (simp_all add: word_sle_eq)
  have a: "globalLatestTimestamp (updateGlobalTimestamp 900 \<lparr>lastPushedTimestamp = Map.empty,
      globalLatestTimestamp = 1005\<rparr>) = 1005"
    using w [THEN conjunct1] by (simp add: signed.max_def cmp)
  have ne: "run_forwarded example_run initial_state \<noteq> []"
    by (simp add: example_run_forwarded)
  have b: "globalLatestTimestamp (pushMetrics_run example_run initial_state) = 86400"
    using v [THEN conjunct2, THEN conjunct2, THEN conjunct2, THEN conjunct2, rule_format, OF ne]
    unfolding set_map [symmetric] example_run_forwarded
    by (simp add: signed.Max.set_eq_fold signed.max_def cmp)
  from a b v [THEN conjunct2, THEN conjunct2, THEN conjunct2, THEN conjunct1]
  show ?thesis by (intro conjI)
qed

subsection \<open>One fetch-and-push cycle\<close>

lemma length_pushMetrics_writes: "length (fst (snd (pushMetrics metrics rwClient s))) \<le> 1"
  by (cases rwClient) (simp_all add: pushMetrics_nil_client pushMetrics_eq)

lemma fetchAndPushMetrics_first:
  assumes "Error resp = None" and "Metrics (Data resp) = (date, metrics) # others"
  shows "fetchAndPushMetrics (Inr resp) rwClient s =
           (map_option PushMetricsError (fst (pushMetrics metrics rwClient s)),
            fst (snd (pushMetrics metrics rwClient s)),
            snd (snd (pushMetrics metrics rwClient s)))"
  using assms
  by (cases "pushMetrics metrics rwClient s")
    (auto simp: fetchAndPushMetrics_def split: option.splits)

text \<open>
  C10. A fetch-and-push cycle forwards the metrics of at most one date of the response.
  When the response carries no error and the iteration over its date-to-metrics map
  yields the entry \<open>(date, metrics)\<close> first, the cycle is one call of pushMetrics on
  these metrics: the same calls of Write, the same state, and its error wrapped. The
  entries the iteration would yield afterwards have no influence on the cycle, so their
  metrics are not forwarded in it; which date is pushed is decided by the order of the
  iteration alone. In every case a cycle makes at most one call of Write.
\<close>

theorem fetchAndPushMetrics_pushes_first_date_only:
  assumes "Error resp = None" and "Metrics (Data resp) = (date, metrics) # others"
  shows "fst (fetchAndPushMetrics (Inr resp) rwClient s) =
           map_option PushMetricsError (fst (pushMetrics metrics rwClient s)) \<and>
         fst (snd (fetchAndPushMetrics (Inr resp) rwClient s)) =
           fst (snd (pushMetrics metrics rwClient s)) \<and>
         snd (snd (fetchAndPushMetrics (Inr resp) rwClient s)) =
           snd (snd (pushMetrics metrics rwClient s)) \<and>
         fetchAndPushMetrics
           (Inr (resp\<lparr>Data := (Data resp)\<lparr>Metrics := (date, metrics) # others'\<rparr>\<rparr>)) rwClient s =
           fetchAndPushMetrics (Inr resp) rwClient s \<and>
         length (fst (snd (fetchAndPushMetrics made rwClient s))) \<le> 1"
proof -
  note first = fetchAndPushMetrics_first [OF assms, of rwClient s]
  let ?resp' = "resp\<lparr>Data := (Data resp)\<lparr>Metrics := (date, metrics) # others'\<rparr>\<rparr>"
  have "Error ?resp' = None" "Metrics (Data ?resp') = (date, metrics) # others'"
    using assms(1) by simp_all
  from fetchAndPushMetrics_first [OF this, of rwClient s]
  have indep: "fetchAndPushMetrics (Inr ?resp') rwClient s = fetchAndPushMetrics (Inr resp) rwClient s"
    by (simp add: first)
  have one: "length (fst (snd (fetchAndPushMetrics made rwClient s))) \<le> 1"
  proof (cases made)
    case (Inl err)
    then show ?thesis by (simp add: fetchAndPushMetrics_def)
  next
    case (Inr r)
    show ?thesis
    proof (cases "Error r")
      case (Some e)
      with Inr show ?thesis by (simp add: fetchAndPushMetrics_def)
    next
      case None
      show ?thesis
      proof (cases "Metrics (Data r)")
        case Nil
        with Inr None show ?thesis by (simp add: fetchAndPushMetrics_def)
      next
        case (Cons dm rest)
        obtain d ms where "dm = (d, ms)" by (cases dm)
        with Cons have "Metrics (Data r) = (d, ms) # rest" by simp
        from fetchAndPushMetrics_first [OF None this, of rwClient s] Inr
          length_pushMetrics_writes [of ms rwClient s]
        show ?thesis by simp
      qed
    qed
  qed
  from first indep one show ?thesis by simp
qed

text \<open>
  A response with two dates: the cycle pushes the heart rate of the date that comes
  first in the iteration, and the other date's when the iteration yields that one
  first.
\<close>

theorem fetchAndPushMetrics_pushes_first_date_only_witness:
  "fetchAndPushMetrics
     (Inr (example_response
        [(''2026-01-07'', [example_timeseries ''hr'' 86400 [(70, 1000), (72, 1005)] 0]),
         (''2026-01-06'', [example_timeseries ''hr'' 0 [(99, 5000)] 0])]))
     (Some accepting_client) initial_state =
     (None,
      [[buildTimeSeries ''ultrahuman_heart_rate_bpm'' 70 1000000,
        buildTimeSeries ''ultrahuman_heart_rate_bpm'' 72 1005000]],
      \<lparr>lastPushedTimestamp = [''hr'' \<mapsto> 1005], globalLatestTimestamp = 1005\<rparr>) \<and>
   fetchAndPushMetrics
     (Inr (example_response
        [(''2026-01-06'', [example_timeseries ''hr'' 0 [(99, 5000)] 0]),
         (''2026-01-07'', [example_timeseries ''hr'' 86400 [(70, 1000), (72, 1005)] 0])]))
     (Some accepting_client) initial_state =
     (None,
      [[buildTimeSeries ''ultrahuman_heart_rate_bpm'' 99 5000000]],
      \<lparr>lastPushedTimestamp = [''hr'' \<mapsto> 5000], globalLatestTimestamp = 5000\<rparr>)"
proof -
  let ?a = "[example_timeseries ''hr'' 86400 [(70, 1000), (72, 1005)] 0]"
  let ?b = "[example_timeseries ''hr'' 0 [(99, 5000)] 0]"
  let ?r1 = "example_response [(''2026-01-07'', ?a), (''2026-01-06'', ?b)]"
  let ?r2 = "example_response [(''2026-01-06'', ?b), (''2026-01-07'', ?a)]"
  note ev = pushMetrics_def push_metric_def example_timeseries_def registry_hr
    timeseries_cfg_def lookup0_def Let_def updateGlobalTimestamp_def initial_state_def
    word_sle_eq word_sless_alt Write_def accepting_client_def
  have pa: "pushMetrics ?a (Some accepting_client) initial_state =
     (None,
      [[buildTimeSeries ''ultrahuman_heart_rate_bpm'' 70 1000000,
        buildTimeSeries ''ultrahuman_heart_rate_bpm'' 72 1005000]],
      \<lparr>lastPushedTimestamp = [''hr'' \<mapsto> 1005], globalLatestTimestamp = 1005\<rparr>)"
    by (simp add: ev)
  have pb: "pushMetrics ?b (Some accepting_client) initial_state =
     (None,
      [[buildTimeSeries ''ultrahuman_heart_rate_bpm'' 99 5000000]],
      \<lparr>lastPushedTimestamp = [''hr'' \<mapsto> 5000], globalLatestTimestamp = 5000\<rparr>)"
    by (simp add: ev)
  have e: "Error ?r1 = None" "Error ?r2 = None"
    by (simp_all add: example_response_def)
  have m1: "Metrics (Data ?r1) = (''2026-01-07'', ?a) # [(''2026-01-06'', ?b)]"
    and m2: "Metrics (Data ?r2) = (''2026-01-06'', ?b) # [(''2026-01-07'', ?a)]"
    by (simp_all add: example_response_def)
  note w1 = fetchAndPushMetrics_pushes_first_date_only
              [OF e(1) m1, where rwClient = "Some accepting_client" and s = initial_state]
  note w2 = fetchAndPushMetrics_pushes_first_date_only
              [OF e(2) m2, where rwClient = "Some accepting_client" and s = initial_state]
  have c1: "fetchAndPushMetrics (Inr ?r1) (Some accepting_client) initial_state =
     (None,
      [[buildTimeSeries ''ultrahuman_heart_rate_bpm'' 70 1000000,
        buildTimeSeries ''ultrahuman_heart_rate_bpm'' 72 1005000]],
      \<lparr>lastPushedTimestamp = [''hr'' \<mapsto> 1005], globalLatestTimestamp = 1005\<rparr>)"
    using w1 [THEN conjunct1] w1 [THEN conjunct2, THEN conjunct1]
      w1 [THEN conjunct2, THEN conjunct2, THEN conjunct1]
    by (simp add: pa prod_eq_iff)
  have c2: "fetchAndPushMetrics (Inr ?r2) (Some accepting_client) initial_state =
     (None,
      [[buildTimeSeries ''ultrahuman_heart_rate_bpm'' 99 5000000]],
      \<lparr>lastPushedTimestamp = [''hr'' \<mapsto> 5000], globalLatestTimestamp = 5000\<rparr>)"
    using w2 [THEN conjunct1] w2 [THEN conjunct2, THEN conjunct1]
      w2 [THEN conjunct2, THEN conjunct2, THEN conjunct1]
    by (simp add: pb prod_eq_iff)
  from c1 c2 show ?thesis by (rule conjI)
qed

end
